theory Spec2Isabelle
  imports Complex_Main "HOL-Library.Sublist"
begin

section \<open>Python strings\<close>

text \<open>
  A Python \<open>str\<close> is a sequence of Unicode code points. It is modelled as a list of
  natural numbers, one per code point, so \<open>length\<close> counts what Python's \<open>len\<close>
  counts and every code point up to U+10FFFF is an input. The ASCII literals of the source
  are written with \<open>lit\<close>. The character classes are those of CPython 3.11
  (Unicode 14.0), as tables of inclusive code point ranges.
\<close>

type_synonym pystr = "nat list"

definition lit :: "string \<Rightarrow> pystr" where
  \<comment> \<open>a string literal of the source, as code points\<close>
  "lit s = map of_char s"

fun in_table :: "nat \<Rightarrow> (nat \<times> nat) list \<Rightarrow> bool" where
  "in_table c [] = False"
| "in_table c ((lo, hi) # rs) = (if lo \<le> c \<and> c \<le> hi then True else in_table c rs)"

fun overlaps :: "nat \<Rightarrow> nat \<Rightarrow> (nat \<times> nat) list \<Rightarrow> bool" where
  \<comment> \<open>whether some range of the table meets the range from \<open>lo\<close> to \<open>hi\<close>\<close>
  "overlaps lo hi [] = False"
| "overlaps lo hi ((a, b) # rs) = (if a \<le> hi \<and> lo \<le> b then True else overlaps lo hi rs)"

definition space_table :: "(nat \<times> nat) list" where
  "space_table =
    [
     (9, 13), (28, 32), (133, 133), (160, 160), (5760, 5760), (8192, 8202), (8232, 8233),
     (8239, 8239), (8287, 8287), (12288, 12288)]"

definition alnum_table :: "(nat \<times> nat) list" where
  "alnum_table =
    [
     (48, 57), (65, 90), (97, 122), (170, 170), (178, 179), (181, 181), (185, 186),
     (188, 190), (192, 214), (216, 246), (248, 705), (710, 721), (736, 740), (748, 748),
     (750, 750), (880, 884), (886, 887), (890, 893), (895, 895), (902, 902), (904, 906),
     (908, 908), (910, 929), (931, 1013), (1015, 1153), (1162, 1327), (1329, 1366),
     (1369, 1369), (1376, 1416), (1488, 1514), (1519, 1522), (1568, 1610), (1632, 1641),
     (1646, 1647), (1649, 1747), (1749, 1749), (1765, 1766), (1774, 1788), (1791, 1791),
     (1808, 1808), (1810, 1839), (1869, 1957), (1969, 1969), (1984, 2026), (2036, 2037),
     (2042, 2042), (2048, 2069), (2074, 2074), (2084, 2084), (2088, 2088), (2112, 2136),
     (2144, 2154), (2160, 2183), (2185, 2190), (2208, 2249), (2308, 2361), (2365, 2365),
     (2384, 2384), (2392, 2401), (2406, 2415), (2417, 2432), (2437, 2444), (2447, 2448),
     (2451, 2472), (2474, 2480), (2482, 2482), (2486, 2489), (2493, 2493), (2510, 2510),
     (2524, 2525), (2527, 2529), (2534, 2545), (2548, 2553), (2556, 2556), (2565, 2570),
     (2575, 2576), (2579, 2600), (2602, 2608), (2610, 2611), (2613, 2614), (2616, 2617),
     (2649, 2652), (2654, 2654), (2662, 2671), (2674, 2676), (2693, 2701), (2703, 2705),
     (2707, 2728), (2730, 2736), (2738, 2739), (2741, 2745), (2749, 2749), (2768, 2768),
     (2784, 2785), (2790, 2799), (2809, 2809), (2821, 2828), (2831, 2832), (2835, 2856),
     (2858, 2864), (2866, 2867), (2869, 2873), (2877, 2877), (2908, 2909), (2911, 2913),
     (2918, 2927), (2929, 2935), (2947, 2947), (2949, 2954), (2958, 2960), (2962, 2965),
     (2969, 2970), (2972, 2972), (2974, 2975), (2979, 2980), (2984, 2986), (2990, 3001),
     (3024, 3024), (3046, 3058), (3077, 3084), (3086, 3088), (3090, 3112), (3114, 3129),
     (3133, 3133), (3160, 3162), (3165, 3165), (3168, 3169), (3174, 3183), (3192, 3198),
     (3200, 3200), (3205, 3212), (3214, 3216), (3218, 3240), (3242, 3251), (3253, 3257),
     (3261, 3261), (3293, 3294), (3296, 3297), (3302, 3311), (3313, 3314), (3332, 3340),
     (3342, 3344), (3346, 3386), (3389, 3389), (3406, 3406), (3412, 3414), (3416, 3425),
     (3430, 3448), (3450, 3455), (3461, 3478), (3482, 3505), (3507, 3515), (3517, 3517),
     (3520, 3526), (3558, 3567), (3585, 3632), (3634, 3635), (3648, 3654), (3664, 3673),
     (3713, 3714), (3716, 3716), (3718, 3722), (3724, 3747), (3749, 3749), (3751, 3760),
     (3762, 3763), (3773, 3773), (3776, 3780), (3782, 3782), (3792, 3801), (3804, 3807),
     (3840, 3840), (3872, 3891), (3904, 3911), (3913, 3948), (3976, 3980), (4096, 4138),
     (4159, 4169), (4176, 4181), (4186, 4189), (4193, 4193), (4197, 4198), (4206, 4208),
     (4213, 4225), (4238, 4238), (4240, 4249), (4256, 4293), (4295, 4295), (4301, 4301),
     (4304, 4346), (4348, 4680), (4682, 4685), (4688, 4694), (4696, 4696), (4698, 4701),
     (4704, 4744), (4746, 4749), (4752, 4784), (4786, 4789), (4792, 4798), (4800, 4800),
     (4802, 4805), (4808, 4822), (4824, 4880), (4882, 4885), (4888, 4954), (4969, 4988),
     (4992, 5007), (5024, 5109), (5112, 5117), (5121, 5740), (5743, 5759), (5761, 5786),
     (5792, 5866), (5870, 5880), (5888, 5905), (5919, 5937), (5952, 5969), (5984, 5996),
     (5998, 6000), (6016, 6067), (6103, 6103), (6108, 6108), (6112, 6121), (6128, 6137),
     (6160, 6169), (6176, 6264), (6272, 6276), (6279, 6312), (6314, 6314), (6320, 6389),
     (6400, 6430), (6470, 6509), (6512, 6516), (6528, 6571), (6576, 6601), (6608, 6618),
     (6656, 6678), (6688, 6740), (6784, 6793), (6800, 6809), (6823, 6823), (6917, 6963),
     (6981, 6988), (6992, 7001), (7043, 7072), (7086, 7141), (7168, 7203), (7232, 7241),
     (7245, 7293), (7296, 7304), (7312, 7354), (7357, 7359), (7401, 7404), (7406, 7411),
     (7413, 7414), (7418, 7418), (7424, 7615), (7680, 7957), (7960, 7965), (7968, 8005),
     (8008, 8013), (8016, 8023), (8025, 8025), (8027, 8027), (8029, 8029), (8031, 8061),
     (8064, 8116), (8118, 8124), (8126, 8126), (8130, 8132), (8134, 8140), (8144, 8147),
     (8150, 8155), (8160, 8172), (8178, 8180), (8182, 8188), (8304, 8305), (8308, 8313),
     (8319, 8329), (8336, 8348), (8450, 8450), (8455, 8455), (8458, 8467), (8469, 8469),
     (8473, 8477), (8484, 8484), (8486, 8486), (8488, 8488), (8490, 8493), (8495, 8505),
     (8508, 8511), (8517, 8521), (8526, 8526), (8528, 8585), (9312, 9371), (9450, 9471),
     (10102, 10131), (11264, 11492), (11499, 11502), (11506, 11507), (11517, 11517),
     (11520, 11557), (11559, 11559), (11565, 11565), (11568, 11623), (11631, 11631),
     (11648, 11670), (11680, 11686), (11688, 11694), (11696, 11702), (11704, 11710),
     (11712, 11718), (11720, 11726), (11728, 11734), (11736, 11742), (11823, 11823),
     (12293, 12295), (12321, 12329), (12337, 12341), (12344, 12348), (12353, 12438),
     (12445, 12447), (12449, 12538), (12540, 12543), (12549, 12591), (12593, 12686),
     (12690, 12693), (12704, 12735), (12784, 12799), (12832, 12841), (12872, 12879),
     (12881, 12895), (12928, 12937), (12977, 12991), (13312, 19903), (19968, 42124),
     (42192, 42237), (42240, 42508), (42512, 42539), (42560, 42606), (42623, 42653),
     (42656, 42735), (42775, 42783), (42786, 42888), (42891, 42954), (42960, 42961),
     (42963, 42963), (42965, 42969), (42994, 43009), (43011, 43013), (43015, 43018),
     (43020, 43042), (43056, 43061), (43072, 43123), (43138, 43187), (43216, 43225),
     (43250, 43255), (43259, 43259), (43261, 43262), (43264, 43301), (43312, 43334),
     (43360, 43388), (43396, 43442), (43471, 43481), (43488, 43492), (43494, 43518),
     (43520, 43560), (43584, 43586), (43588, 43595), (43600, 43609), (43616, 43638),
     (43642, 43642), (43646, 43695), (43697, 43697), (43701, 43702), (43705, 43709),
     (43712, 43712), (43714, 43714), (43739, 43741), (43744, 43754), (43762, 43764),
     (43777, 43782), (43785, 43790), (43793, 43798), (43808, 43814), (43816, 43822),
     (43824, 43866), (43868, 43881), (43888, 44002), (44016, 44025), (44032, 55203),
     (55216, 55238), (55243, 55291), (63744, 64109), (64112, 64217), (64256, 64262),
     (64275, 64279), (64285, 64285), (64287, 64296), (64298, 64310), (64312, 64316),
     (64318, 64318), (64320, 64321), (64323, 64324), (64326, 64433), (64467, 64829),
     (64848, 64911), (64914, 64967), (65008, 65019), (65136, 65140), (65142, 65276),
     (65296, 65305), (65313, 65338), (65345, 65370), (65382, 65470), (65474, 65479),
     (65482, 65487), (65490, 65495), (65498, 65500), (65536, 65547), (65549, 65574),
     (65576, 65594), (65596, 65597), (65599, 65613), (65616, 65629), (65664, 65786),
     (65799, 65843), (65856, 65912), (65930, 65931), (66176, 66204), (66208, 66256),
     (66273, 66299), (66304, 66339), (66349, 66378), (66384, 66421), (66432, 66461),
     (66464, 66499), (66504, 66511), (66513, 66517), (66560, 66717), (66720, 66729),
     (66736, 66771), (66776, 66811), (66816, 66855), (66864, 66915), (66928, 66938),
     (66940, 66954), (66956, 66962), (66964, 66965), (66967, 66977), (66979, 66993),
     (66995, 67001), (67003, 67004), (67072, 67382), (67392, 67413), (67424, 67431),
     (67456, 67461), (67463, 67504), (67506, 67514), (67584, 67589), (67592, 67592),
     (67594, 67637), (67639, 67640), (67644, 67644), (67647, 67669), (67672, 67702),
     (67705, 67742), (67751, 67759), (67808, 67826), (67828, 67829), (67835, 67867),
     (67872, 67897), (67968, 68023), (68028, 68047), (68050, 68096), (68112, 68115),
     (68117, 68119), (68121, 68149), (68160, 68168), (68192, 68222), (68224, 68255),
     (68288, 68295), (68297, 68324), (68331, 68335), (68352, 68405), (68416, 68437),
     (68440, 68466), (68472, 68497), (68521, 68527), (68608, 68680), (68736, 68786),
     (68800, 68850), (68858, 68899), (68912, 68921), (69216, 69246), (69248, 69289),
     (69296, 69297), (69376, 69415), (69424, 69445), (69457, 69460), (69488, 69505),
     (69552, 69579), (69600, 69622), (69635, 69687), (69714, 69743), (69745, 69746),
     (69749, 69749), (69763, 69807), (69840, 69864), (69872, 69881), (69891, 69926),
     (69942, 69951), (69956, 69956), (69959, 69959), (69968, 70002), (70006, 70006),
     (70019, 70066), (70081, 70084), (70096, 70106), (70108, 70108), (70113, 70132),
     (70144, 70161), (70163, 70187), (70272, 70278), (70280, 70280), (70282, 70285),
     (70287, 70301), (70303, 70312), (70320, 70366), (70384, 70393), (70405, 70412),
     (70415, 70416), (70419, 70440), (70442, 70448), (70450, 70451), (70453, 70457),
     (70461, 70461), (70480, 70480), (70493, 70497), (70656, 70708), (70727, 70730),
     (70736, 70745), (70751, 70753), (70784, 70831), (70852, 70853), (70855, 70855),
     (70864, 70873), (71040, 71086), (71128, 71131), (71168, 71215), (71236, 71236),
     (71248, 71257), (71296, 71338), (71352, 71352), (71360, 71369), (71424, 71450),
     (71472, 71483), (71488, 71494), (71680, 71723), (71840, 71922), (71935, 71942),
     (71945, 71945), (71948, 71955), (71957, 71958), (71960, 71983), (71999, 71999),
     (72001, 72001), (72016, 72025), (72096, 72103), (72106, 72144), (72161, 72161),
     (72163, 72163), (72192, 72192), (72203, 72242), (72250, 72250), (72272, 72272),
     (72284, 72329), (72349, 72349), (72368, 72440), (72704, 72712), (72714, 72750),
     (72768, 72768), (72784, 72812), (72818, 72847), (72960, 72966), (72968, 72969),
     (72971, 73008), (73030, 73030), (73040, 73049), (73056, 73061), (73063, 73064),
     (73066, 73097), (73112, 73112), (73120, 73129), (73440, 73458), (73648, 73648),
     (73664, 73684), (73728, 74649), (74752, 74862), (74880, 75075), (77712, 77808),
     (77824, 78894), (82944, 83526), (92160, 92728), (92736, 92766), (92768, 92777),
     (92784, 92862), (92864, 92873), (92880, 92909), (92928, 92975), (92992, 92995),
     (93008, 93017), (93019, 93025), (93027, 93047), (93053, 93071), (93760, 93846),
     (93952, 94026), (94032, 94032), (94099, 94111), (94176, 94177), (94179, 94179),
     (94208, 100343), (100352, 101589), (101632, 101640), (110576, 110579), (110581, 110587),
     (110589, 110590), (110592, 110882), (110928, 110930), (110948, 110951),
     (110960, 111355), (113664, 113770), (113776, 113788), (113792, 113800),
     (113808, 113817), (119520, 119539), (119648, 119672), (119808, 119892),
     (119894, 119964), (119966, 119967), (119970, 119970), (119973, 119974),
     (119977, 119980), (119982, 119993), (119995, 119995), (119997, 120003),
     (120005, 120069), (120071, 120074), (120077, 120084), (120086, 120092),
     (120094, 120121), (120123, 120126), (120128, 120132), (120134, 120134),
     (120138, 120144), (120146, 120485), (120488, 120512), (120514, 120538),
     (120540, 120570), (120572, 120596), (120598, 120628), (120630, 120654),
     (120656, 120686), (120688, 120712), (120714, 120744), (120746, 120770),
     (120772, 120779), (120782, 120831), (122624, 122654), (123136, 123180),
     (123191, 123197), (123200, 123209), (123214, 123214), (123536, 123565),
     (123584, 123627), (123632, 123641), (124896, 124902), (124904, 124907),
     (124909, 124910), (124912, 124926), (124928, 125124), (125127, 125135),
     (125184, 125251), (125259, 125259), (125264, 125273), (126065, 126123),
     (126125, 126127), (126129, 126132), (126209, 126253), (126255, 126269),
     (126464, 126467), (126469, 126495), (126497, 126498), (126500, 126500),
     (126503, 126503), (126505, 126514), (126516, 126519), (126521, 126521),
     (126523, 126523), (126530, 126530), (126535, 126535), (126537, 126537),
     (126539, 126539), (126541, 126543), (126545, 126546), (126548, 126548),
     (126551, 126551), (126553, 126553), (126555, 126555), (126557, 126557),
     (126559, 126559), (126561, 126562), (126564, 126564), (126567, 126570),
     (126572, 126578), (126580, 126583), (126585, 126588), (126590, 126590),
     (126592, 126601), (126603, 126619), (126625, 126627), (126629, 126633),
     (126635, 126651), (127232, 127244), (130032, 130041), (131072, 173791),
     (173824, 177976), (177984, 178205), (178208, 183969), (183984, 191456),
     (194560, 195101), (196608, 201546)]"

definition decimal_zeros :: "nat list" where
  \<comment> \<open>the code points of the digit zero of every decimal digit block (category Nd);
      the digits 1 to 9 of a block follow its zero\<close>
  "decimal_zeros =
    [
     48, 1632, 1776, 1984, 2406, 2534, 2662, 2790, 2918, 3046, 3174, 3302, 3430, 3558, 3664,
     3792, 3872, 4160, 4240, 6112, 6160, 6470, 6608, 6784, 6800, 6992, 7088, 7232, 7248,
     42528, 43216, 43264, 43472, 43504, 43600, 44016, 65296, 66720, 68912, 69734, 69872,
     69942, 70096, 70384, 70736, 70864, 71248, 71360, 71472, 71904, 72016, 72784, 73040,
     73120, 92768, 92864, 93008, 120782, 120792, 120802, 120812, 120822, 123200, 123632,
     125264, 130032]"

definition isspace :: "nat \<Rightarrow> bool" where
  \<comment> \<open>\<open>str.isspace\<close> of one character; also the set \<open>str.strip()\<close> and \<open>str.split()\<close> use\<close>
  "isspace c = in_table c space_table"

definition isalnum :: "nat \<Rightarrow> bool" where
  \<comment> \<open>\<open>str.isalnum\<close> of one character\<close>
  "isalnum c = in_table c alnum_table"

definition strip :: "pystr \<Rightarrow> pystr" where
  \<comment> \<open>\<open>s.strip()\<close>\<close>
  "strip s = rev (dropWhile isspace (rev (dropWhile isspace s)))"

function split_ws :: "pystr \<Rightarrow> pystr list" where
  \<comment> \<open>\<open>s.split()\<close>: the maximal runs of non-whitespace characters\<close>
  "split_ws s =
     (case dropWhile isspace s of
        [] \<Rightarrow> []
      | c # cs \<Rightarrow>
          takeWhile (\<lambda>x. \<not> isspace x) (c # cs) #
          split_ws (dropWhile (\<lambda>x. \<not> isspace x) (c # cs)))"
  by pat_completeness auto
termination
proof (relation "measure length")
  show "wf (measure length)" by simp
next
  fix s :: pystr and c cs
  assume a: "dropWhile isspace s = c # cs"
  have "length (dropWhile (\<lambda>x. \<not> isspace x) (c # cs)) < length (c # cs)"
  proof -
    from a have "\<not> isspace c"
      by (metis hd_dropWhile list.sel(1) list.distinct(1))
    then show ?thesis
      by (simp add: length_dropWhile_le less_Suc_eq_le)
  qed
  also have "length (c # cs) \<le> length s"
    using a length_dropWhile_le [of isspace s] by simp
  finally show "(dropWhile (\<lambda>x. \<not> isspace x) (c # cs), s) \<in> measure length"
    by simp
qed

fun join :: "pystr \<Rightarrow> pystr list \<Rightarrow> pystr" where
  \<comment> \<open>\<open>sep.join(ws)\<close>\<close>
  "join sep [] = []"
| "join sep [w] = w"
| "join sep (w # v # ws) = w @ sep @ join sep (v # ws)"

section \<open>Sanitized file names\<close>

definition keep_char :: "nat \<Rightarrow> bool" where
  \<comment> \<open>the filter of \<open>sanitize_filename\<close>: \<open>ch.isalnum() or ch in (" ", "-", "_")\<close>\<close>
  "keep_char ch \<longleftrightarrow> isalnum ch \<or> ch \<in> set (lit '' -_'')"

definition sanitize_filename :: "pystr \<Rightarrow> pystr" where
  "sanitize_filename name =
     (let safe = filter keep_char name;
          safe = join (lit ''_'') (split_ws (strip safe))
      in if safe \<noteq> [] then take 100 safe else lit ''travel_guide'')"

text \<open>
  The transform as the specification words it, read in order: keep alphanumerics, spaces,
  hyphens and underscores; collapse the spaces that are left to underscores; truncate to
  100 characters; fall back to a constant name if nothing is left. \<open>collapse\<close> reads the
  kept characters from left to right: \<open>pending\<close> records that a run of spaces has been
  passed since the last character that was written, and the next character that is not a
  space is then written after one underscore. Spaces before the first word are dropped
  beforehand, spaces after the last word leave nothing.
\<close>

fun collapse :: "bool \<Rightarrow> pystr \<Rightarrow> pystr" where
  "collapse pending [] = []"
| "collapse pending (c # cs) =
     (if c = 32 then collapse True cs
      else (if pending then [95, c] else [c]) @ collapse False cs)"

definition spec_sanitize :: "pystr \<Rightarrow> pystr" where
  "spec_sanitize name =
     (let kept = filter (\<lambda>c. isalnum c \<or> c = 32 \<or> c = 45 \<or> c = 95) name;
          s = collapse False (dropWhile (\<lambda>c. c = 32) kept)
      in if s = [] then lit ''travel_guide'' else take 100 s)"

section \<open>Prompt Builder\<close>

fun str_nat :: "nat \<Rightarrow> pystr" where
  \<comment> \<open>the decimal digits of a natural number\<close>
  "str_nat n = (if n < 10 then [48 + n] else str_nat (n div 10) @ [48 + n mod 10])"

definition str_int :: "int \<Rightarrow> pystr" where
  \<comment> \<open>\<open>str(i)\<close>, which is what an f-string writes for an \<open>int\<close>\<close>
  "str_int i = (if i < 0 then 45 # str_nat (nat (- i)) else str_nat (nat i))"

text \<open>
  The f-string returned by \<open>build_prompt\<close> (the same text in \<open>main.py\<close> and in
  \<open>server.py\<close>) has eight placeholders. \<open>tpl_0\<close> to \<open>tpl_8\<close> are its literal text
  before, between and after them, line by line.
\<close>

definition tpl_0 :: pystr where
  \<open>tpl_0 =
     lit ''\<newline>'' @
     lit ''You are an expert travel planner. Generate a complete, accurate, and helpful travel '' @
     lit ''guide in clear Markdown for the destination: ''\<close>

definition tpl_1 :: pystr where
  \<open>tpl_1 =
     lit ''.\<newline>'' @
     lit ''\<newline>'' @
     lit ''Output structure (use Markdown headings and bullet lists; keep it concise but '' @
     lit ''complete):\<newline>'' @
     lit ''\<newline>'' @
     lit ''1. Title: "Rupam's Travel Guide: ''\<close>

definition tpl_2 :: pystr where
  \<open>tpl_2 =
     lit ''"\<newline>'' @
     lit ''2. One-paragraph overview\<newline>'' @
     lit ''3. Best time to visit: months, weather patterns, crowd levels\<newline>'' @
     lit ''4. Foreigner visit rate: qualitative plus rough figures or indexes when commonly '' @
     lit ''known; else a careful qualitative estimate\<newline>'' @
     lit ''5. Approximate costs in ''\<close>

definition tpl_3 :: pystr where
  \<open>tpl_3 =
     lit '':\<newline>'' @
     lit ''   - Daily budget ranges (shoestring / mid-range / comfortable)\<newline>'' @
     lit ''   - Typical costs: accommodation per night, meals, local transport, attractions\<newline>'' @
     lit ''   - Example total for ''\<close>

definition tpl_4 :: pystr where
  \<open>tpl_4 =
     lit '' days\<newline>'' @
     lit ''6. Best hotels in the area: 3-6 options across budget/mid-range/luxury with rough '' @
     lit ''price range in ''\<close>

definition tpl_5 :: pystr where
  \<open>tpl_5 =
     lit ''; include neighborhood context; if widely-known, add an official site or aggregator '' @
     lit ''keyword (no live browsing)\<newline>'' @
     lit ''7. Best local foods: 6-10 iconic dishes/snacks/drinks with one-line descriptions\<newline>'' @
     lit ''8. Month-wise precautions: cover all 12 months with concise bullets (weather, '' @
     lit ''closures, festivals, health, clothing). ''\<close>

definition tpl_6 :: pystr where
  \<open>tpl_6 =
     lit ''\<newline>'' @
     lit ''9. Itinerary for ''\<close>

definition tpl_7 :: pystr where
  \<open>tpl_7 =
     lit '' days: for each day, outline morning/afternoon/evening with 2-3 attraction ideas, '' @
     lit ''approximate visit durations, transit suggestions, timing tips, and alternatives for '' @
     lit ''rain/peak heat\<newline>'' @
     lit ''10. Practical tips: safety, payments, SIM/internet, etiquette, local transport '' @
     lit ''passes, tipping norms, scams to avoid\<newline>'' @
     lit ''\<newline>'' @
     lit ''General guidance:\<newline>'' @
     lit ''- If specific facts are uncertain, label them as estimates and provide typical '' @
     lit ''ranges. Do not fabricate precise numbers.\<newline>'' @
     lit ''- Keep suggestions family-friendly and culturally sensitive.\<newline>'' @
     lit ''- Avoid promises; use cautious language when needed.\<newline>'' @
     lit ''- Use readable Markdown with headings, bullet points, and short paragraphs.\<newline>'' @
     lit ''- Do not include any system or meta-instructions in the final answer.\<newline>''\<close>

definition tpl_8 :: pystr where
  \<open>tpl_8 =
     lit ''\<newline>''\<close>

definition month_clause :: "pystr \<Rightarrow> pystr" where
  "month_clause month =
     lit ''If the user-specified month is provided, highlight guidance for '' @ month @
     lit '' explicitly.''"

definition budget_clause :: "int \<Rightarrow> pystr \<Rightarrow> pystr" where
  "budget_clause daily_budget currency =
     lit ''Assume a daily budget of around '' @ str_int daily_budget @ lit '' '' @ currency @
     lit '' and adjust recommendations accordingly.''"

definition build_prompt ::
  "pystr \<Rightarrow> int \<Rightarrow> pystr option \<Rightarrow> pystr \<Rightarrow> int option \<Rightarrow> pystr" where
  \<comment> \<open>\<open>if month\<close> is false for \<open>None\<close> and for the empty string\<close>
  "build_prompt destination days month currency daily_budget =
     (let specific_month_line =
            (case month of
               None \<Rightarrow> []
             | Some m \<Rightarrow> if m \<noteq> [] then month_clause m else []);
          budget_line =
            (case daily_budget of
               None \<Rightarrow> []
             | Some b \<Rightarrow> budget_clause b currency)
      in tpl_0 @ destination @ tpl_1 @ destination @ tpl_2 @ currency @ tpl_3 @
         str_int days @ tpl_4 @ currency @ tpl_5 @ specific_month_line @ tpl_6 @
         str_int days @ tpl_7 @ budget_line @ tpl_8)"

text \<open>The fixed text that starts each of the two optional clauses.\<close>

definition month_clause_head :: pystr where
  "month_clause_head = lit ''If the user-specified month is provided, highlight guidance for''"

definition budget_clause_head :: pystr where
  "budget_clause_head = lit ''Assume a daily budget of around''"

section \<open>Values decoded from JSON and Python's \<open>int()\<close>\<close>

text \<open>
  A Python \<open>float\<close> is a finite binary fraction, an infinity or a NaN. Every finite
  float is a rational number, and only its truth value and its truncation are used, so
  the finite ones are modelled by \<open>rat\<close>.
\<close>

datatype pyfloat = Finite rat | Infinite | NaN

text \<open>What \<open>json.loads\<close> returns. An object is given by its items; \<open>data.get(key)\<close> is
  \<open>map_of\<close> on them, and a key that is absent gives \<open>None\<close> as a JSON \<open>null\<close> does.\<close>

datatype json =
    JNull
  | JBool bool
  | JInt int
  | JFloat pyfloat
  | JStr pystr
  | JArr "json list"
  | JObj "(pystr \<times> json) list"

datatype exc =
    ValueError | TypeError | OverflowError | AttributeError | FileExistsError | IsADirectoryError

fun truthy :: "json \<Rightarrow> bool" where
  \<comment> \<open>\<open>bool(x)\<close>\<close>
  "truthy JNull = False"
| "truthy (JBool b) = b"
| "truthy (JInt i) = (i \<noteq> 0)"
| "truthy (JFloat f) = (f \<noteq> Finite 0)"
| "truthy (JStr s) = (s \<noteq> [])"
| "truthy (JArr xs) = (xs \<noteq> [])"
| "truthy (JObj kvs) = (kvs \<noteq> [])"

definition decimal_digit :: "nat \<Rightarrow> nat option" where
  \<comment> \<open>the value of a decimal digit of any script\<close>
  "decimal_digit c =
     (case filter (\<lambda>z. z \<le> c \<and> c \<le> z + 9) decimal_zeros of
        [] \<Rightarrow> None
      | z # _ \<Rightarrow> Some (c - z))"

definition ascii_space :: "nat \<Rightarrow> bool" where
  \<comment> \<open>the whitespace that the integer parser skips: space, \<open>\t \n \v \f \r\<close>\<close>
  "ascii_space c \<longleftrightarrow> (9 \<le> c \<and> c \<le> 13) \<or> c = 32"

definition is_digit :: "nat \<Rightarrow> bool" where
  "is_digit c \<longleftrightarrow> 48 \<le> c \<and> c \<le> 57"

definition to_ascii :: "nat \<Rightarrow> nat option" where
  \<comment> \<open>\<open>int()\<close> first maps whitespace beyond ASCII to a space and decimal digits of
      other scripts to ASCII digits; any other character beyond ASCII is an error\<close>
  "to_ascii c =
     (if c < 127 then Some c
      else if isspace c then Some 32
      else map_option (\<lambda>d. 48 + d) (decimal_digit c))"

definition int_of_str :: "pystr \<Rightarrow> int option" where
  \<comment> \<open>\<open>int(s)\<close> for a string, \<open>None\<close> where Python raises \<open>ValueError\<close>: optional
      whitespace, an optional sign, digits with single underscores between them, optional
      whitespace; at most 4300 digits (the default limit of CPython 3.11)\<close>
  "int_of_str s =
     (case those (map to_ascii s) of
        None \<Rightarrow> None
      | Some buf \<Rightarrow>
          (let t = dropWhile ascii_space buf;
               negative = (t \<noteq> [] \<and> hd t = 45);
               u = (if t \<noteq> [] \<and> (hd t = 45 \<or> hd t = 43) then tl t else t);
               body = takeWhile (\<lambda>c. is_digit c \<or> c = 95) u;
               rest = dropWhile (\<lambda>c. is_digit c \<or> c = 95) u;
               digits = filter is_digit body
           in if body = [] \<or> hd body = 95 \<or> last body = 95 \<or> sublist [95, 95] body \<or>
                 4300 < length digits \<or> dropWhile ascii_space rest \<noteq> []
              then None
              else Some ((if negative then - 1 else 1) *
                         int (foldl (\<lambda>a c. 10 * a + (c - 48)) 0 digits))))"

fun py_int :: "json \<Rightarrow> exc + int" where
  \<comment> \<open>\<open>int(x)\<close> for a value decoded from JSON\<close>
  "py_int JNull = Inl TypeError"
| "py_int (JBool b) = Inr (if b then 1 else 0)"
| "py_int (JInt i) = Inr i"
| "py_int (JFloat (Finite q)) = Inr (if q < 0 then - \<lfloor>- q\<rfloor> else \<lfloor>q\<rfloor>)"
| "py_int (JFloat Infinite) = Inl OverflowError"
| "py_int (JFloat NaN) = Inl ValueError"
| "py_int (JStr s) = (case int_of_str s of None \<Rightarrow> Inl ValueError | Some i \<Rightarrow> Inr i)"
| "py_int (JArr xs) = Inl TypeError"
| "py_int (JObj kvs) = Inl TypeError"

section \<open>The environment, the generator and the file system\<close>

definition load_environment_variables ::
  "(pystr \<rightharpoonup> pystr) \<Rightarrow> (pystr \<rightharpoonup> pystr) \<Rightarrow> (pystr \<rightharpoonup> pystr)" where
  \<comment> \<open>\<open>load_dotenv(override=False)\<close>: the variables of the \<open>.env\<close> file that was found
      are added to the process environment where it does not set them\<close>
  "load_environment_variables dotenv environ =
     (\<lambda>name. case environ name of Some v \<Rightarrow> Some v | None \<Rightarrow> dotenv name)"

definition get_env_variable :: "(pystr \<rightharpoonup> pystr) \<Rightarrow> pystr \<Rightarrow> pystr option" where
  "get_env_variable env name =
     (case env name of
        None \<Rightarrow> None
      | Some v \<Rightarrow> if v \<noteq> [] \<and> strip v \<noteq> [] then Some v else None)"

text \<open>
  The generative-language API is outside the program. One call of it is a function from
  what the program hands over to what comes back: an exception with its text, or a
  result whose \<open>text\<close> attribute is a string or is missing.
\<close>

record gen_request =
  api_key :: "pystr option"
  model_name :: pystr
  contents :: "pystr list"
  generation_config :: "(pystr \<times> pystr) list"

datatype gen_result = Raises pystr | Returns "pystr option"

definition system_message :: pystr where
  "system_message =
     lit ''You are a seasoned travel planner who creates accurate, helpful, and organized travel guides.''"

definition the_generation_config :: "(pystr \<times> pystr) list" where
  \<comment> \<open>the numbers as the source writes them\<close>
  "the_generation_config =
     [(lit ''temperature'', lit ''0.6''), (lit ''top_p'', lit ''0.9''),
      (lit ''max_output_tokens'', lit ''2000'')]"

text \<open>
  The file system maps a path to a file with its text or to a directory. \<open>mkdir\<close> with
  \<open>exist_ok\<close> fails on a path that is a file, writing fails on a path that is a
  directory. Limits of the operating system (permissions, name lengths, free space) are
  not modelled.
\<close>

datatype node = File pystr | Dir

datatype out_line = Line pystr | Usage_error

record world =
  stdout :: "pystr list"
  stderr :: "out_line list"
  files :: "pystr \<rightharpoonup> node"
  calls :: "gen_request list"

definition mkdir_p :: "pystr \<Rightarrow> (pystr \<rightharpoonup> node) \<Rightarrow> exc + (pystr \<rightharpoonup> node)" where
  "mkdir_p d fs = (case fs d of Some (File t) \<Rightarrow> Inl FileExistsError | _ \<Rightarrow> Inr (fs(d \<mapsto> Dir)))"

definition write_text ::
  "pystr \<Rightarrow> pystr \<Rightarrow> (pystr \<rightharpoonup> node) \<Rightarrow> exc + (pystr \<rightharpoonup> node)" where
  "write_text p content fs =
     (case fs p of Some Dir \<Rightarrow> Inl IsADirectoryError | _ \<Rightarrow> Inr (fs(p \<mapsto> File content)))"

definition save_report ::
  "pystr \<Rightarrow> pystr \<Rightarrow> pystr \<Rightarrow> (pystr \<rightharpoonup> node) \<Rightarrow> exc + pystr \<times> (pystr \<rightharpoonup> node)" where
  \<comment> \<open>Persistence, for a given reports directory: the four lines both front-ends share\<close>
  "save_report reports_dir destination content fs =
     (case mkdir_p reports_dir fs of
        Inl e \<Rightarrow> Inl e
      | Inr fs1 \<Rightarrow>
          (let out_path = reports_dir @ lit ''/'' @ sanitize_filename destination @ lit ''.md''
           in case write_text out_path content fs1 of
                Inl e \<Rightarrow> Inl e
              | Inr fs2 \<Rightarrow> Inr (out_path, fs2)))"

definition save_output_markdown ::
  "pystr \<Rightarrow> pystr \<Rightarrow> (pystr \<rightharpoonup> node) \<Rightarrow> exc + pystr \<times> (pystr \<rightharpoonup> node)" where
  "save_output_markdown destination content fs = save_report (lit ''reports'') destination content fs"

definition generate ::
  "(gen_request \<Rightarrow> gen_result) \<Rightarrow> pystr option \<Rightarrow> pystr \<Rightarrow> pystr \<Rightarrow> world \<Rightarrow>
     (pystr + pystr) \<times> world" where
  \<comment> \<open>the call of the API as both front-ends make it, with the prompt already built; the
      call is recorded in the world\<close>
  "generate gen key model prompt w =
     (let rq = \<lparr>api_key = key, model_name = model,
                contents = [lit ''System: '' @ system_message, lit ''User: '' @ prompt],
                generation_config = the_generation_config\<rparr>;
          w1 = w\<lparr>calls := calls w @ [rq]\<rparr>
      in case gen rq of
           Raises e \<Rightarrow> (Inl e, w1)
         | Returns t \<Rightarrow> (Inr (strip (case t of None \<Rightarrow> [] | Some x \<Rightarrow> x)), w1))"

section \<open>CLI Front-End\<close>

text \<open>
  \<open>argparse\<close> matches the flags of the command line to their values; the model starts
  from the values it found, each \<open>None\<close> when the flag is not given. A missing required
  flag or a value that \<open>type=int\<close> cannot convert makes \<open>argparse\<close> print its usage
  message to the error stream and leave the process with status 2.
\<close>

record raw_args =
  raw_destination :: "pystr option"
  raw_days :: "pystr option"
  raw_month :: "pystr option"
  raw_currency :: "pystr option"
  raw_budget :: "pystr option"
  raw_model :: "pystr option"

record args =
  arg_destination :: pystr
  arg_days :: int
  arg_month :: "pystr option"
  arg_currency :: pystr
  arg_budget :: "int option"
  arg_model :: "pystr option"

definition parse_args :: "raw_args \<Rightarrow> unit + args" where
  "parse_args raw =
     (case raw_destination raw of
        None \<Rightarrow> Inl ()
      | Some destination \<Rightarrow>
          (case (case raw_days raw of None \<Rightarrow> Some 4 | Some s \<Rightarrow> int_of_str s) of
             None \<Rightarrow> Inl ()
           | Some days \<Rightarrow>
               (case (case raw_budget raw of None \<Rightarrow> Some None
                      | Some s \<Rightarrow> map_option Some (int_of_str s)) of
                  None \<Rightarrow> Inl ()
                | Some budget \<Rightarrow>
                    Inr \<lparr>arg_destination = destination, arg_days = days,
                         arg_month = raw_month raw,
                         arg_currency = (case raw_currency raw of None \<Rightarrow> lit ''INR'' | Some c \<Rightarrow> c),
                         arg_budget = budget, arg_model = raw_model raw\<rparr>)))"

datatype outcome = Exit int | Uncaught exc

definition main ::
  "(gen_request \<Rightarrow> gen_result) \<Rightarrow> (pystr \<rightharpoonup> pystr) \<Rightarrow> (pystr \<rightharpoonup> pystr) \<Rightarrow> raw_args \<Rightarrow>
     world \<Rightarrow> outcome \<times> world" where
  "main gen dotenv environ raw w =
     (let env = load_environment_variables dotenv environ
      in case parse_args raw of
           Inl u \<Rightarrow> (Exit 2, w\<lparr>stderr := stderr w @ [Usage_error]\<rparr>)
         | Inr a \<Rightarrow>
             (let model =
                    (case (case arg_model a of None \<Rightarrow> None
                           | Some m \<Rightarrow> if m \<noteq> [] then Some m else None) of
                       Some m \<Rightarrow> m
                     | None \<Rightarrow>
                         (case get_env_variable env (lit ''MODEL'') of
                            Some m \<Rightarrow> m
                          | None \<Rightarrow> lit ''gemini-1.5-flash''))
              in case get_env_variable env (lit ''GOOGLE_API_KEY'') of
                   None \<Rightarrow>
                     (Exit 2,
                      w\<lparr>stderr := stderr w @
                         [Line (lit ''ERROR: GOOGLE_API_KEY not set. Add it to .env or environment.'')]\<rparr>)
                 | Some google_key \<Rightarrow>
                     (case generate gen (env (lit ''GOOGLE_API_KEY'')) model
                             (build_prompt (arg_destination a) (max 1 (arg_days a)) (arg_month a)
                                (arg_currency a) (arg_budget a)) w of
                        (Inl e, w1) \<Rightarrow>
                          (Exit 1,
                           w1\<lparr>stderr := stderr w1 @
                              [Line (lit ''ERROR: Failed to generate guide: '' @ e)]\<rparr>)
                      | (Inr content, w1) \<Rightarrow>
                          (let w2 = w1\<lparr>stdout := stdout w1 @ [content]\<rparr>
                           in case save_output_markdown (arg_destination a) content (files w2) of
                                Inl e \<Rightarrow> (Uncaught e, w2)
                              | Inr (out_path, fs) \<Rightarrow>
                                  (Exit 0,
                                   w2\<lparr>files := fs,
                                      stdout := stdout w2 @
                                        [lit ''\<newline>Saved to: '' @ out_path]\<rparr>)))))"

section \<open>HTTP Front-End\<close>

text \<open>
  What lines 85 to 88 of \<open>do_POST\<close> make of the request: a \<open>Content-Length\<close> that is
  not a number (its conversion raises outside the \<open>try\<close>), no body (then the data are
  the empty object), a body that fails to decode with the text of the exception, or the
  decoded value.
\<close>

datatype body_in = Bad_length | No_body | Not_json pystr | Json json

record request =
  req_path :: pystr
  req_body :: body_in

datatype reply = Responded nat "(pystr \<times> json) list" | Unhandled exc

definition get_text :: "(pystr \<times> json) list \<Rightarrow> pystr \<Rightarrow> pystr \<Rightarrow> exc + pystr" where
  \<comment> \<open>\<open>(data.get(key) or dflt).strip()\<close>; a value that is true and not a string has
      no \<open>strip\<close>\<close>
  "get_text data key dflt =
     (case map_of data key of
        None \<Rightarrow> Inr (strip dflt)
      | Some v \<Rightarrow>
          if \<not> truthy v then Inr (strip dflt)
          else (case v of JStr s \<Rightarrow> Inr (strip s) | _ \<Rightarrow> Inl AttributeError))"

definition coerce_days :: "json option \<Rightarrow> int" where
  \<comment> \<open>lines 96 to 100\<close>
  "coerce_days v =
     (let days = (case v of None \<Rightarrow> JInt 4 | Some x \<Rightarrow> if truthy x then x else JInt 4)
      in case py_int days of Inr n \<Rightarrow> max 1 n | Inl e \<Rightarrow> 4)"

definition coerce_budget :: "json option \<Rightarrow> int option" where
  \<comment> \<open>lines 105 to 109\<close>
  "coerce_budget v =
     (case v of
        None \<Rightarrow> None
      | Some JNull \<Rightarrow> None
      | Some x \<Rightarrow> (case py_int x of Inr n \<Rightarrow> Some n | Inl e \<Rightarrow> None))"

definition reports_dir_of :: "pystr \<Rightarrow> pystr" where
  \<comment> \<open>\<open>REPORTS_DIR = PROJECT_DIR / "reports"\<close>\<close>
  "reports_dir_of project_dir = project_dir @ lit ''/reports''"

definition handle ::
  "(gen_request \<Rightarrow> gen_result) \<Rightarrow> (pystr \<rightharpoonup> pystr) \<Rightarrow> pystr \<Rightarrow> (pystr \<times> json) list \<Rightarrow>
     world \<Rightarrow> reply \<times> world" where
  \<comment> \<open>\<open>do_POST\<close> from line 92 on, for the decoded object \<open>data\<close>\<close>
  "handle gen env project_dir data w =
     (case get_text data (lit ''destination'') [] of
        Inl e \<Rightarrow> (Unhandled e, w)
      | Inr destination \<Rightarrow>
          if destination = [] then
            (Responded 400
               [(lit ''ok'', JBool False), (lit ''error'', JStr (lit '''destination' is required''))], w)
          else
            (let days = coerce_days (map_of data (lit ''days''))
             in case get_text data (lit ''month'') [] of
                  Inl e \<Rightarrow> (Unhandled e, w)
                | Inr m \<Rightarrow>
                    (let month = (if m \<noteq> [] then Some m else None)
                     in case get_text data (lit ''currency'') (lit ''INR'') of
                          Inl e \<Rightarrow> (Unhandled e, w)
                        | Inr c \<Rightarrow>
                            (let currency = (if c \<noteq> [] then c else lit ''INR'');
                                 daily_budget = coerce_budget (map_of data (lit ''budget''))
                             in case get_text data (lit ''model'')
                                       (case env (lit ''MODEL'') of
                                          None \<Rightarrow> lit ''gemini-1.5-flash''
                                        | Some v \<Rightarrow> if v \<noteq> [] then v else lit ''gemini-1.5-flash'') of
                                  Inl e \<Rightarrow> (Unhandled e, w)
                                | Inr model \<Rightarrow>
                                    (case (case env (lit ''GOOGLE_API_KEY'') of
                                             None \<Rightarrow> None
                                           | Some k \<Rightarrow> if k \<noteq> [] then Some k else None) of
                                       None \<Rightarrow>
                                         (Responded 500
                                            [(lit ''ok'', JBool False),
                                             (lit ''error'', JStr (lit ''GOOGLE_API_KEY not set''))], w)
                                     | Some google_key \<Rightarrow>
                                         (case generate gen (Some google_key) model
                                                 (build_prompt destination days month currency
                                                    daily_budget) w of
                                            (Inl e, w1) \<Rightarrow>
                                              (Responded 500
                                                 [(lit ''ok'', JBool False),
                                                  (lit ''error'', JStr (lit ''Failed to generate: '' @ e))],
                                               w1)
                                          | (Inr content, w1) \<Rightarrow>
                                              (case save_report (reports_dir_of project_dir)
                                                      destination content (files w1) of
                                                 Inl e \<Rightarrow> (Unhandled e, w1)
                                               | Inr (file_path, fs) \<Rightarrow>
                                                   (Responded 200
                                                      [(lit ''ok'', JBool True),
                                                       (lit ''markdown'', JStr content),
                                                       (lit ''saved'', JStr file_path)],
                                                    w1\<lparr>files := fs\<rparr>))))))))"

definition do_POST ::
  "(gen_request \<Rightarrow> gen_result) \<Rightarrow> (pystr \<rightharpoonup> pystr) \<Rightarrow> pystr \<Rightarrow> request \<Rightarrow> world \<Rightarrow>
     reply \<times> world" where
  \<comment> \<open>the base class has no \<open>do_POST\<close>, so any other path ends in an \<open>AttributeError\<close>;
      a decoded body that is not an object has no \<open>get\<close>\<close>
  "do_POST gen env project_dir rq w =
     (if req_path rq \<noteq> lit ''/api/generate'' then (Unhandled AttributeError, w)
      else case req_body rq of
             Bad_length \<Rightarrow> (Unhandled ValueError, w)
           | Not_json e \<Rightarrow>
               (Responded 400
                  [(lit ''ok'', JBool False), (lit ''error'', JStr (lit ''Invalid JSON: '' @ e))], w)
           | No_body \<Rightarrow> handle gen env project_dir [] w
           | Json (JObj data) \<Rightarrow> handle gen env project_dir data w
           | Json v \<Rightarrow> (Unhandled AttributeError, w))"

section \<open>Properties of the sanitized file name\<close>

declare split_ws.simps [simp del]

lemma lit_simps: "lit [] = []" "lit (c # cs) = of_char c # lit cs"
  by (simp_all add: lit_def)

lemma in_table_weak_cong: "c = c' \<Longrightarrow> in_table c rs = in_table c' rs"
  by simp

lemma overlaps_weak_cong: "lo = lo' \<Longrightarrow> hi = hi' \<Longrightarrow> overlaps lo hi rs = overlaps lo' hi' rs"
  by simp

lemma in_table_overlaps: "in_table c rs \<Longrightarrow> lo \<le> c \<Longrightarrow> c \<le> hi \<Longrightarrow> overlaps lo hi rs"
  by (induction rs) (auto split: if_splits)

lemma in_table_iff: "in_table c rs \<longleftrightarrow> (\<exists>(lo, hi) \<in> set rs. lo \<le> c \<and> c \<le> hi)"
  by (induction rs) auto

lemma alnum_misses_space:
  "\<not> overlaps 9 13 alnum_table" "\<not> overlaps 28 32 alnum_table"
  "\<not> overlaps 133 133 alnum_table" "\<not> overlaps 160 160 alnum_table"
  "\<not> overlaps 5760 5760 alnum_table" "\<not> overlaps 8192 8202 alnum_table"
  "\<not> overlaps 8232 8233 alnum_table" "\<not> overlaps 8239 8239 alnum_table"
  "\<not> overlaps 8287 8287 alnum_table" "\<not> overlaps 12288 12288 alnum_table"
  unfolding alnum_table_def by (simp_all cong: overlaps_weak_cong)

lemma isspace_cases:
  assumes "isspace c"
  obtains lo hi where "lo \<le> c" "c \<le> hi" "\<not> overlaps lo hi alnum_table"
proof -
  from assms have "(9 \<le> c \<and> c \<le> 13) \<or> (28 \<le> c \<and> c \<le> 32) \<or> (133 \<le> c \<and> c \<le> 133) \<or>
      (160 \<le> c \<and> c \<le> 160) \<or> (5760 \<le> c \<and> c \<le> 5760) \<or> (8192 \<le> c \<and> c \<le> 8202) \<or>
      (8232 \<le> c \<and> c \<le> 8233) \<or> (8239 \<le> c \<and> c \<le> 8239) \<or> (8287 \<le> c \<and> c \<le> 8287) \<or>
      (12288 \<le> c \<and> c \<le> 12288)"
    by (simp add: isspace_def space_table_def in_table_iff)
  then show thesis
    using that alnum_misses_space by (elim disjE conjE) blast+
qed

lemma isalnum_not_isspace: "isalnum c \<Longrightarrow> \<not> isspace c"
proof
  assume a: "isalnum c" and s: "isspace c"
  from s obtain lo hi where "lo \<le> c" "c \<le> hi" "\<not> overlaps lo hi alnum_table"
    by (rule isspace_cases)
  with a in_table_overlaps [of c alnum_table lo hi] show False
    by (simp add: isalnum_def)
qed


lemma if_not_P_swap: "(if a \<noteq> b then x else y) = (if a = b then y else x)"
  by simp

lemma keep_char_iff: "keep_char c \<longleftrightarrow> isalnum c \<or> c = 32 \<or> c = 45 \<or> c = 95"
  by (auto simp add: keep_char_def lit_simps)

lemma isspace_32: "isspace 32"
  by (simp add: isspace_def space_table_def)

lemma not_isspace_45_95: "\<not> isspace 45" "\<not> isspace 95"
  by (simp_all add: isspace_def space_table_def)

lemma keep_char_isspace: "keep_char c \<Longrightarrow> isspace c \<longleftrightarrow> c = 32"
  using isalnum_not_isspace isspace_32 not_isspace_45_95 by (auto simp add: keep_char_iff)

lemma set_strip: "set (strip s) \<subseteq> set s"
proof -
  have "set (strip s) \<subseteq> set (dropWhile isspace s)"
    unfolding strip_def using set_dropWhileD by fastforce
  also have "\<dots> \<subseteq> set s"
    using set_dropWhileD by fastforce
  finally show ?thesis .
qed

lemma split_ws_Nil: "split_ws [] = []"
  by (simp add: split_ws.simps [of "[]"])

lemma split_ws_spaces:
  assumes "\<forall>c \<in> set sp. isspace c"
  shows "split_ws (sp @ rest) = split_ws rest"
proof -
  have "dropWhile isspace (sp @ rest) = dropWhile isspace rest"
    using assms by (intro dropWhile_append2) simp
  then show ?thesis
    by (simp only: split_ws.simps [of "sp @ rest"] split_ws.simps [of rest])
qed

lemma split_ws_word:
  assumes "w \<noteq> []" and "\<forall>c \<in> set w. \<not> isspace c" and "rest = [] \<or> isspace (hd rest)"
  shows "split_ws (w @ rest) = w # split_ws rest"
proof -
  from assms(1) obtain c cs where w: "w = c # cs" by (cases w) auto
  with assms(2) have c: "\<not> isspace c" by simp
  have d: "dropWhile isspace (w @ rest) = c # (cs @ rest)"
    using w c by simp
  have t: "takeWhile (\<lambda>x. \<not> isspace x) (c # (cs @ rest)) = w"
  proof -
    have "takeWhile (\<lambda>x. \<not> isspace x) (w @ rest) = w @ takeWhile (\<lambda>x. \<not> isspace x) rest"
      using assms(2) by (intro takeWhile_append2) simp
    also have "takeWhile (\<lambda>x. \<not> isspace x) rest = []"
      using assms(3) by (cases rest) simp_all
    finally show ?thesis by (simp add: w)
  qed
  have r: "dropWhile (\<lambda>x. \<not> isspace x) (c # (cs @ rest)) = rest"
  proof -
    have "dropWhile (\<lambda>x. \<not> isspace x) (w @ rest) = dropWhile (\<lambda>x. \<not> isspace x) rest"
      using assms(2) by (intro dropWhile_append2) simp
    also have "dropWhile (\<lambda>x. \<not> isspace x) rest = rest"
      using assms(3) by (cases rest) simp_all
    finally show ?thesis by (simp add: w)
  qed
  have "split_ws (w @ rest) =
      (case dropWhile isspace (w @ rest) of [] \<Rightarrow> []
       | c # cs \<Rightarrow> takeWhile (\<lambda>x. \<not> isspace x) (c # cs) #
           split_ws (dropWhile (\<lambda>x. \<not> isspace x) (c # cs)))"
    by (rule split_ws.simps)
  also have "\<dots> = w # split_ws rest"
    by (simp only: d list.case t r)
  finally show ?thesis .
qed

text \<open>Every string is a run of whitespace, then a word, then a rest that is empty or
  starts with whitespace; or it is whitespace only.\<close>

lemma ws_decompose:
  obtains (blank) "\<forall>c \<in> set s. isspace c"
  | (word) sp w rest where "s = sp @ w @ rest" "\<forall>c \<in> set sp. isspace c" "w \<noteq> []"
      "\<forall>c \<in> set w. \<not> isspace c" "rest = [] \<or> isspace (hd rest)" "length rest < length s"
proof (cases "dropWhile isspace s")
  case Nil
  then have "\<forall>c \<in> set s. isspace c" by (simp add: dropWhile_eq_Nil_conv)
  then show thesis by (rule blank)
next
  case (Cons c cs)
  let ?sp = "takeWhile isspace s"
  let ?w = "takeWhile (\<lambda>x. \<not> isspace x) (c # cs)"
  let ?rest = "dropWhile (\<lambda>x. \<not> isspace x) (c # cs)"
  have c: "\<not> isspace c"
    using Cons by (metis hd_dropWhile list.sel(1) list.distinct(1))
  have 1: "s = ?sp @ ?w @ ?rest"
    using Cons takeWhile_dropWhile_id [of isspace s]
      takeWhile_dropWhile_id [of "\<lambda>x. \<not> isspace x" "c # cs"] by simp
  have 2: "\<forall>c \<in> set ?sp. isspace c" by (auto dest: set_takeWhileD)
  have 3: "?w \<noteq> []" using c by simp
  have 4: "\<forall>x \<in> set ?w. \<not> isspace x" by (auto dest: set_takeWhileD)
  have 5: "?rest = [] \<or> isspace (hd ?rest)"
    using hd_dropWhile [of "\<lambda>x. \<not> isspace x" "c # cs"] by blast
  have "length ?rest < length (c # cs)"
    using c by (simp add: length_dropWhile_le less_Suc_eq_le)
  also have "length (c # cs) \<le> length s"
    using Cons length_dropWhile_le [of isspace s] by simp
  finally have 6: "length ?rest < length s" .
  from 1 2 3 4 5 6 show thesis by (rule word)
qed

lemma split_ws_trailing:
  assumes "\<forall>c \<in> set sp. isspace c"
  shows "split_ws (s @ sp) = split_ws s"
proof (induction s rule: length_induct)
  case (1 s)
  show ?case
  proof (cases s rule: ws_decompose)
    case blank
    then have "split_ws (s @ sp) = split_ws sp" by (rule split_ws_spaces)
    also have "\<dots> = split_ws []" using split_ws_spaces [OF assms, of "[]"] by simp
    also have "\<dots> = split_ws s" using split_ws_spaces [OF blank, of "[]"] by simp
    finally show ?thesis .
  next
    case (word sp0 w rest)
    have r: "rest @ sp = [] \<or> isspace (hd (rest @ sp))"
      using word(5) assms by (cases rest; cases sp) simp_all
    have "split_ws (s @ sp) = split_ws (w @ (rest @ sp))"
      using word(1) split_ws_spaces [OF word(2), of "w @ rest @ sp"] by simp
    also have "\<dots> = w # split_ws (rest @ sp)"
      using word(3,4) r by (rule split_ws_word)
    also have "split_ws (rest @ sp) = split_ws rest"
      using "1.IH" word(6) by blast
    also have "w # split_ws rest = split_ws (w @ rest)"
      using word(3,4,5) by (rule split_ws_word [symmetric])
    also have "\<dots> = split_ws s"
      using word(1) split_ws_spaces [OF word(2), of "w @ rest"] by simp
    finally show ?thesis .
  qed
qed

lemma split_ws_strip: "split_ws (strip s) = split_ws s"
proof -
  let ?t = "dropWhile isspace s"
  have 1: "split_ws s = split_ws ?t"
    using split_ws_spaces [of "takeWhile isspace s" ?t] by (auto dest: set_takeWhileD)
  have "rev ?t = takeWhile isspace (rev ?t) @ dropWhile isspace (rev ?t)" by simp
  then have "?t = rev (dropWhile isspace (rev ?t)) @ rev (takeWhile isspace (rev ?t))"
    by (metis rev_append rev_rev_ident)
  then have 2: "?t = strip s @ rev (takeWhile isspace (rev ?t))"
    by (simp add: strip_def)
  have "\<forall>c \<in> set (rev (takeWhile isspace (rev ?t))). isspace c"
    by (auto dest: set_takeWhileD)
  from split_ws_trailing [OF this, of "strip s"] 2 have "split_ws ?t = split_ws (strip s)"
    by simp
  with 1 show ?thesis by simp
qed


lemma collapse_word:
  assumes "w \<noteq> []" and "\<forall>c \<in> set w. c \<noteq> 32"
  shows "collapse g (w @ r) = (if g then [95] else []) @ w @ collapse False r"
  using assms
proof (induction w arbitrary: g)
  case Nil
  then show ?case by simp
next
  case (Cons c w)
  show ?case
  proof (cases "w = []")
    case True
    with Cons.prems show ?thesis by simp
  next
    case False
    with Cons.prems have "collapse False (w @ r) = w @ collapse False r"
      using Cons.IH [of False] by simp
    with Cons.prems show ?thesis by simp
  qed
qed

lemma collapse_spaces:
  assumes "sp \<noteq> []" and "\<forall>c \<in> set sp. c = 32"
  shows "collapse g (sp @ r) = collapse True r"
  using assms
proof (induction sp arbitrary: g)
  case Nil
  then show ?case by simp
next
  case (Cons c sp)
  show ?case
  proof (cases "sp = []")
    case True
    with Cons.prems show ?thesis by simp
  next
    case False
    with Cons.prems Cons.IH [of True] show ?thesis by simp
  qed
qed

lemma collapse_blank:
  assumes "\<forall>c \<in> set sp. c = 32"
  shows "collapse g sp = []"
  using assms by (induction sp arbitrary: g) simp_all

lemma collapse_pending:
  assumes "c \<noteq> 32"
  shows "collapse True (c # cs) = 95 # collapse False (c # cs)"
  using assms by simp

lemma split_ws_empty_iff: "split_ws s = [] \<longleftrightarrow> dropWhile isspace s = []"
proof (cases "dropWhile isspace s")
  case Nil
  then show ?thesis by (simp only: split_ws.simps [of s] list.case simp_thms)
next
  case (Cons c cs)
  then show ?thesis by (simp only: split_ws.simps [of s] list.case list.distinct simp_thms)
qed

text \<open>On a string whose only whitespace is U+0020, joining the words of \<open>split\<close> with
  underscores is what \<open>collapse\<close> writes.\<close>

lemma join_split_collapse:
  assumes "\<forall>c \<in> set s. isspace c \<longleftrightarrow> c = 32"
  shows "join [95] (split_ws s) = collapse False (dropWhile isspace s)"
  using assms
proof (induction s rule: length_induct)
  case (1 s)
  note plain = "1.prems"
  show ?case
  proof (cases s rule: ws_decompose)
    case blank
    then have e: "dropWhile isspace s = []" by simp
    then have sw: "split_ws s = []" by (simp only: split_ws_empty_iff)
    show ?thesis by (simp only: e sw join.simps collapse.simps)
  next
    case (word sp w rest)
    have w32: "\<forall>c \<in> set w. c \<noteq> 32"
      using word(1,4) plain by auto
    have plain_rest: "\<forall>c \<in> set rest. isspace c \<longleftrightarrow> c = 32"
      using word(1) plain by auto
    have d: "dropWhile isspace s = w @ rest"
    proof -
      have "dropWhile isspace (sp @ (w @ rest)) = dropWhile isspace (w @ rest)"
        using word(2) by (intro dropWhile_append2) simp
      also have "\<dots> = w @ rest"
        using word(3,4) by (cases w) simp_all
      finally show ?thesis using word(1) by simp
    qed
    have sw: "split_ws s = w # split_ws rest"
      using word(1) split_ws_spaces [OF word(2), of "w @ rest"]
        split_ws_word [OF word(3,4,5)] by simp
    have IH: "join [95] (split_ws rest) = collapse False (dropWhile isspace rest)"
      using "1.IH" word(6) plain_rest by blast
    have cw: "collapse False (w @ rest) = w @ collapse False rest"
      using collapse_word [OF word(3) w32, of False rest] by simp
    show ?thesis
    proof (cases "dropWhile isspace rest")
      case Nil
      then have all: "\<forall>c \<in> set rest. isspace c" by (simp add: dropWhile_eq_Nil_conv)
      with plain_rest have "\<forall>c \<in> set rest. c = 32" by blast
      then have "collapse False rest = []" by (rule collapse_blank)
      moreover from Nil have "split_ws rest = []" by (simp only: split_ws_empty_iff)
      ultimately show ?thesis by (simp only: d sw cw join.simps append_Nil2)
    next
      case (Cons c cs)
      then have ne: "split_ws rest \<noteq> []" by (simp only: split_ws_empty_iff list.distinct not_False_eq_True)
      then obtain v vs where vs: "split_ws rest = v # vs" by (cases "split_ws rest") auto
      have c: "\<not> isspace c"
        using Cons by (metis hd_dropWhile list.sel(1) list.distinct(1))
      have "c \<in> set rest" using Cons set_dropWhileD [of c isspace rest] by simp
      with c plain_rest have c32: "c \<noteq> 32" by blast
      let ?sp = "takeWhile isspace rest"
      have rest: "rest = ?sp @ (c # cs)"
        using Cons takeWhile_dropWhile_id [of isspace rest] by simp
      have "rest \<noteq> []" using Cons by auto
      with word(5) have "isspace (hd rest)" by simp
      then have spne: "?sp \<noteq> []" using \<open>rest \<noteq> []\<close> by (cases rest) simp_all
      have "\<forall>x \<in> set ?sp. isspace x" by (auto dest: set_takeWhileD)
      moreover have "set ?sp \<subseteq> set rest" by (auto dest: set_takeWhileD)
      ultimately have sp32: "\<forall>x \<in> set ?sp. x = 32" using plain_rest by blast
      have "collapse False rest = collapse False (?sp @ (c # cs))"
        using rest by simp
      also have "\<dots> = collapse True (c # cs)"
        using spne sp32 by (rule collapse_spaces)
      also have "\<dots> = 95 # collapse False (c # cs)"
        using c32 by (rule collapse_pending)
      finally have cr: "collapse False rest = 95 # collapse False (dropWhile isspace rest)"
        using Cons by simp
      have "join [95] (split_ws s) = w @ [95] @ join [95] (split_ws rest)"
        using sw vs by simp
      also have "\<dots> = w @ 95 # collapse False (dropWhile isspace rest)"
        using IH by simp
      also have "\<dots> = collapse False (dropWhile isspace s)"
        using d cw cr by simp
      finally show ?thesis .
    qed
  qed
qed


lemma join_lit_underscore: "lit ''_'' = [95]"
  by (simp add: lit_simps)

lemma filter_keep_char:
  "filter keep_char name = filter (\<lambda>c. isalnum c \<or> c = 32 \<or> c = 45 \<or> c = 95) name"
  by (rule filter_cong) (simp_all add: keep_char_iff)

lemma kept_plain: "\<forall>c \<in> set (filter keep_char name). isspace c \<longleftrightarrow> c = 32"
  by (simp add: keep_char_isspace)

lemma sanitize_eq_spec: "sanitize_filename name = spec_sanitize name"
proof -
  let ?k = "filter keep_char name"
  have "join (lit ''_'') (split_ws (strip ?k)) = join [95] (split_ws ?k)"
    by (simp only: join_lit_underscore split_ws_strip)
  also have "\<dots> = collapse False (dropWhile isspace ?k)"
    using kept_plain by (rule join_split_collapse)
  also have "dropWhile isspace ?k = dropWhile (\<lambda>c. c = 32) ?k"
  proof (rule dropWhile_cong)
    fix x assume "x \<in> set ?k"
    with kept_plain [of name] show "isspace x = (x = 32)" by (rule bspec)
  qed (rule refl)
  finally have j: "join (lit ''_'') (split_ws (strip ?k)) =
      collapse False (dropWhile (\<lambda>c. c = 32) ?k)" .
  have "sanitize_filename name =
      (if collapse False (dropWhile (\<lambda>c. c = 32) ?k) \<noteq> []
       then take 100 (collapse False (dropWhile (\<lambda>c. c = 32) ?k)) else lit ''travel_guide'')"
    by (simp only: sanitize_filename_def Let_def j)
  also have "\<dots> = spec_sanitize name"
    by (simp only: spec_sanitize_def Let_def filter_keep_char [symmetric] if_not_P_swap)
  finally show ?thesis .
qed


lemma split_ws_words:
  "w \<in> set (split_ws s) \<Longrightarrow> set w \<subseteq> set s \<and> (\<forall>c \<in> set w. \<not> isspace c)"
proof (induction s arbitrary: w rule: length_induct)
  case (1 s)
  show ?case
  proof (cases s rule: ws_decompose)
    case blank
    then have "dropWhile isspace s = []" by simp
    then have "split_ws s = []" by (simp only: split_ws_empty_iff)
    with "1.prems" show ?thesis by simp
  next
    case (word sp v rest)
    have "split_ws s = v # split_ws rest"
      using word(1) split_ws_spaces [OF word(2), of "v @ rest"]
        split_ws_word [OF word(3,4,5)] by simp
    with "1.prems" consider "w = v" | "w \<in> set (split_ws rest)" by auto
    then show ?thesis
    proof cases
      case 1
      with word(1,4) show ?thesis by auto
    next
      case 2
      with "1.IH" word(6) have "set w \<subseteq> set rest \<and> (\<forall>c \<in> set w. \<not> isspace c)" by blast
      with word(1) show ?thesis by auto
    qed
  qed
qed

lemma set_join: "set (join sep ws) \<subseteq> set sep \<union> (\<Union>w \<in> set ws. set w)"
  by (induction sep ws rule: join.induct) auto

lemma isalnum_travel_guide: "\<forall>c \<in> set (lit ''travel_guide''). isalnum c \<or> c = 95"
  unfolding isalnum_def alnum_table_def
  by (simp add: lit_simps cong: in_table_weak_cong)

lemma sanitize_chars:
  assumes "c \<in> set (sanitize_filename name)"
  shows "isalnum c \<or> c = 45 \<or> c = 95"
proof -
  let ?safe = "filter keep_char name"
  let ?j = "join (lit ''_'') (split_ws (strip ?safe))"
  have j: "isalnum x \<or> x = 45 \<or> x = 95" if "x \<in> set ?j" for x
  proof -
    from that set_join [of "lit ''_''" "split_ws (strip ?safe)"]
    consider "x = 95" | w where "w \<in> set (split_ws (strip ?safe))" "x \<in> set w"
      by (auto simp add: join_lit_underscore)
    then show ?thesis
    proof cases
      case 1 then show ?thesis by simp
    next
      case 2
      from split_ws_words [OF 2(1)] 2(2) have "x \<in> set (strip ?safe)" "\<not> isspace x"
        by auto
      with set_strip [of ?safe] have "keep_char x" by auto
      with \<open>\<not> isspace x\<close> isspace_32 show ?thesis
        by (auto simp add: keep_char_iff)
    qed
  qed
  show ?thesis
  proof (cases "?j = []")
    case True
    with assms have "c \<in> set (lit ''travel_guide'')"
      by (simp add: sanitize_filename_def Let_def)
    with isalnum_travel_guide show ?thesis by blast
  next
    case False
    with assms have "c \<in> set (take 100 ?j)"
      by (simp add: sanitize_filename_def Let_def)
    then have "c \<in> set ?j" by (rule in_set_takeD)
    then show ?thesis by (rule j)
  qed
qed

lemma sanitize_no_space:
  assumes "c \<in> set (sanitize_filename name)"
  shows "\<not> isspace c"
  using sanitize_chars [OF assms] isalnum_not_isspace not_isspace_45_95 by blast

lemma sanitize_length: "length (sanitize_filename name) \<le> 100"
  by (simp add: sanitize_filename_def Let_def lit_def)

lemma sanitize_fallback:
  assumes "\<forall>c \<in> set name. \<not> (isalnum c \<or> c = 32 \<or> c = 45 \<or> c = 95)"
  shows "sanitize_filename name = lit ''travel_guide''"
proof -
  from assms have "filter keep_char name = []"
    by (simp add: filter_empty_conv keep_char_iff)
  then show ?thesis
    by (simp add: sanitize_filename_def strip_def split_ws_Nil)
qed


lemma split_ws_Cons:
  "split_ws (c # cs) =
     (if isspace c then split_ws cs
      else takeWhile (\<lambda>x. \<not> isspace x) (c # cs) #
           split_ws (dropWhile (\<lambda>x. \<not> isspace x) (c # cs)))"
proof (cases "isspace c")
  case True
  then have "dropWhile isspace (c # cs) = dropWhile isspace cs" by simp
  then show ?thesis
    using True by (simp only: split_ws.simps [of "c # cs"] split_ws.simps [of cs] if_True)
next
  case False
  then have "dropWhile isspace (c # cs) = c # cs" by simp
  then show ?thesis
    using False by (simp only: split_ws.simps [of "c # cs"] list.case if_False)
qed

lemma alnum_samples:
  "isalnum 97" "isalnum 98" "\<not> isalnum 9" "\<not> isalnum 33" "\<not> isalnum 63"
  "isalnum 26481" "isalnum 20140" "isalnum 84" "isalnum 111" "isalnum 119"
  "isalnum 101" "isalnum 114" "isalnum 83" "isalnum 227" "isalnum 80" "isalnum 117" "isalnum 108"
  unfolding isalnum_def alnum_table_def by (simp_all cong: in_table_weak_cong)

lemmas sanitize_eval =
  sanitize_filename_def keep_char_iff strip_def split_ws_Nil split_ws_Cons lit_simps
  isspace_def space_table_def alnum_samples

text \<open>Two destinations traced through the code: \<open>S\<atilde>o Paulo!!!\<close> (with U+00E3) and a
  destination in Japanese script followed by two spaces and \<open>Tower!\<close>.\<close>

lemma sanitize_sao_paulo:
  "sanitize_filename (lit ''S'' @ [227] @ lit ''o Paulo!!!'') = lit ''S'' @ [227] @ lit ''o_Paulo''"
  by (simp add: sanitize_eval)

lemma sanitize_tokyo_tower:
  "sanitize_filename ([26481, 20140, 32, 32] @ lit ''Tower!'') = [26481, 20140] @ lit ''_Tower''"
  by (simp add: sanitize_eval)

text \<open>
  Claim C2, as amended. For every destination string, \<open>sanitize_filename\<close> returns what
  the transform of the specification returns when its steps are read in order
  (\<open>spec_sanitize\<close>): every character that is not alphanumeric, U+0020, a hyphen or an
  underscore is deleted, so that tabs, newlines and every other kind of whitespace are
  deleted and not turned into underscores; the spaces before the first and after the last
  remaining word are dropped and every run of spaces between two words becomes one
  underscore; the first 100 characters of that are kept. The result contains only
  alphanumerics, hyphens and underscores and no whitespace, it is at most 100 characters
  long, and it is the fallback \<open>travel_guide\<close> when every character of the destination is
  invalid (in particular when the destination is empty).
\<close>

theorem sanitize_filename_spec:
  "sanitize_filename name = spec_sanitize name \<and>
   (\<forall>c \<in> set (sanitize_filename name). (isalnum c \<or> c = 45 \<or> c = 95) \<and> \<not> isspace c) \<and>
   length (sanitize_filename name) \<le> 100 \<and>
   ((\<forall>c \<in> set name. \<not> (isalnum c \<or> c = 32 \<or> c = 45 \<or> c = 95))
      \<longrightarrow> sanitize_filename name = lit ''travel_guide'')"
proof (intro conjI ballI impI)
  show "sanitize_filename name = spec_sanitize name" by (rule sanitize_eq_spec)
next
  fix c assume c: "c \<in> set (sanitize_filename name)"
  then show "isalnum c \<or> c = 45 \<or> c = 95" by (rule sanitize_chars)
  from c show "\<not> isspace c" by (rule sanitize_no_space)
next
  show "length (sanitize_filename name) \<le> 100" by (rule sanitize_length)
next
  assume "\<forall>c \<in> set name. \<not> (isalnum c \<or> c = 32 \<or> c = 45 \<or> c = 95)"
  then show "sanitize_filename name = lit ''travel_guide''" by (rule sanitize_fallback)
qed

theorem sanitize_filename_spec_witness:
  "sanitize_filename (lit ''?!'') = spec_sanitize (lit ''?!'') \<and>
   set (sanitize_filename (lit ''?!'')) \<subseteq> {c. (isalnum c \<or> c = 45 \<or> c = 95) \<and> \<not> isspace c} \<and>
   length (sanitize_filename (lit ''?!'')) \<le> 100 \<and>
   sanitize_filename (lit ''?!'') = lit ''travel_guide''"
proof -
  have b: "\<forall>c \<in> set (lit ''?!''). \<not> (isalnum c \<or> c = 32 \<or> c = 45 \<or> c = 95)"
    by (simp add: lit_simps alnum_samples)
  have s: "\<And>A P. (\<forall>c \<in> A. P c) \<Longrightarrow> A \<subseteq> {c. P c}"
    by (simp add: subset_iff)
  from sanitize_filename_spec [of "lit ''?!''"] b
  have "sanitize_filename (lit ''?!'') = spec_sanitize (lit ''?!'') \<and>
   (\<forall>c \<in> set (sanitize_filename (lit ''?!'')). (isalnum c \<or> c = 45 \<or> c = 95) \<and> \<not> isspace c) \<and>
   length (sanitize_filename (lit ''?!'')) \<le> 100 \<and>
   sanitize_filename (lit ''?!'') = lit ''travel_guide''"
    by iprover
  then show ?thesis
    by (iprover intro: s)
qed

text \<open>
  The claim as worded fails for whitespace other than U+0020: in \<open>a<TAB>b\<close> the tab is
  whitespace, and it is deleted by the filter instead of becoming an underscore.
\<close>

theorem sanitize_filename_tab_counterexample:
  "isspace 9 \<and> sanitize_filename (lit ''a'' @ [9] @ lit ''b'') = lit ''ab''"
  by (simp add: sanitize_eval)

section \<open>Text that a concatenation cannot contain\<close>

lemma lit_append: "lit (a @ b) = lit a @ lit b"
  by (simp add: lit_def)

lemma in_set_lit: "n \<in> set (lit s) \<longleftrightarrow> (\<exists>c \<in> set s. of_char c = n)"
  by (auto simp add: lit_def)

text \<open>An occurrence of \<open>P\<close> in \<open>xs @ ys\<close> lies in \<open>xs\<close>, lies in \<open>ys\<close>, or starts in
  \<open>xs\<close> and ends in \<open>ys\<close>.\<close>

lemma not_sublist_appendI:
  assumes "\<not> sublist P xs" and "\<not> sublist P ys"
    and "\<And>p s. P = p @ s \<Longrightarrow> p \<noteq> [] \<Longrightarrow> s \<noteq> [] \<Longrightarrow> suffix p xs \<Longrightarrow> prefix s ys \<Longrightarrow> False"
  shows "\<not> sublist P (xs @ ys)"
proof
  assume "sublist P (xs @ ys)"
  with assms(1,2) obtain p s where ps: "P = p @ s" "suffix p xs" "prefix s ys"
    by (auto simp add: sublist_append)
  have "p \<noteq> []"
  proof
    assume "p = []"
    with ps have "prefix P ys" by simp
    with assms(2) show False by (auto dest: prefix_imp_sublist)
  qed
  moreover have "s \<noteq> []"
  proof
    assume "s = []"
    with ps have "suffix P xs" by simp
    with assms(1) show False by (auto dest: suffix_imp_sublist)
  qed
  ultimately show False using ps assms(3) by blast
qed

text \<open>A text that does not hold the first character of \<open>P\<close> cannot end with the start of
  an occurrence.\<close>

lemma avoid_plain:
  assumes "P \<noteq> []" and "hd P \<notin> set xs" and "\<not> sublist P ys"
  shows "\<not> sublist P (xs @ ys)"
proof (rule not_sublist_appendI)
  show "\<not> sublist P xs"
  proof
    assume "sublist P xs"
    then have "set P \<subseteq> set xs" by (rule set_mono_sublist)
    with assms(1,2) show False by (cases P) auto
  qed
  show "\<not> sublist P ys" by fact
next
  fix p s assume "P = p @ s" "p \<noteq> []" "suffix p xs"
  then have "hd P = hd p" "hd p \<in> set p" "set p \<subseteq> set xs"
    by (auto simp add: suffix_def)
  with assms(2) show False by auto
qed

text \<open>The same when only the end \<open>t\<close> of the text is free of that character, and \<open>t\<close>
  does not occur in \<open>P\<close>.\<close>

lemma avoid_tail:
  assumes "\<not> sublist P (h @ t)" and "hd P \<notin> set t" and "\<not> sublist t P" and "\<not> sublist P ys"
  shows "\<not> sublist P ((h @ t) @ ys)"
proof (rule not_sublist_appendI)
  fix p s assume ps: "P = p @ s" "p \<noteq> []" "suffix p (h @ t)"
  have "suffix t (h @ t)" by (rule suffixI) (rule refl)
  with ps(3) consider "suffix p t" | "suffix t p"
    using suffix_same_cases by blast
  then show False
  proof cases
    case 1
    with ps(1,2) have "hd P = hd p" "hd p \<in> set p" "set p \<subseteq> set t"
      by (auto simp add: suffix_def)
    with assms(2) show ?thesis by auto
  next
    case 2
    then obtain zs where "p = zs @ t" by (auto simp add: suffix_def)
    then have "p @ s = zs @ t @ s" by simp
    then have "sublist t (p @ s)" unfolding sublist_def by blast
    with ps(1) assms(3) show ?thesis by simp
  qed
qed fact+

text \<open>A text of any content can be put in front when what follows starts with a text \<open>h\<close>
  that neither holds the last character of \<open>P\<close> nor occurs in \<open>P\<close>.\<close>

lemma avoid_free:
  assumes "\<not> sublist P xs" and "last P \<notin> set h" and "\<not> sublist h P" and "\<not> sublist P (h @ ys)"
  shows "\<not> sublist P (xs @ h @ ys)"
proof (rule not_sublist_appendI)
  fix p s assume ps: "P = p @ s" "s \<noteq> []" "prefix s (h @ ys)"
  have "prefix h (h @ ys)" by simp
  with ps(3) consider "prefix s h" | "prefix h s"
    using prefix_same_cases by blast
  then show False
  proof cases
    case 1
    with ps(1,2) have "last P = last s" "last s \<in> set s" "set s \<subseteq> set h"
      by (auto simp add: prefix_def)
    with assms(2) show ?thesis by auto
  next
    case 2
    then obtain zs where "s = h @ zs" by (auto simp add: prefix_def)
    then have "p @ s = p @ h @ zs" by simp
    then have "sublist h (p @ s)" unfolding sublist_def by blast
    with ps(1) assms(3) show ?thesis by simp
  qed
qed fact+


lemma lit_split: "a = h @ t \<Longrightarrow> lit a = lit h @ lit t"
  by (simp add: lit_def)

lemma avoid_marked:
  assumes "x \<in> set P" and "x \<notin> set (h @ t)" and "hd P \<notin> set t"
    and "z \<in> set t" and "z \<notin> set P" and "\<not> sublist P ys"
  shows "\<not> sublist P ((h @ t) @ ys)"
proof (rule avoid_tail)
  show "\<not> sublist P (h @ t)"
    using assms(1,2) set_mono_sublist by blast
  show "\<not> sublist t P"
    using assms(4,5) set_mono_sublist by blast
qed fact+

lemma avoid_free_marked:
  assumes "\<not> sublist P xs" and "last P \<notin> set h" and "z \<in> set h" and "z \<notin> set P"
    and "\<not> sublist P (h @ ys)"
  shows "\<not> sublist P (xs @ h @ ys)"
proof (rule avoid_free)
  show "\<not> sublist h P"
    using assms(3,4) set_mono_sublist by blast
qed fact+

lemma month_head_facts:
  "month_clause_head \<noteq> []" "hd month_clause_head = 73" "last month_clause_head = 114"
  "n \<in> set month_clause_head \<longleftrightarrow>
     n \<in> {73, 102, 32, 116, 104, 101, 117, 115, 114, 45, 112, 99, 105, 100, 109, 111, 110, 118,
          44, 103, 108, 97}"
  by (auto simp add: month_clause_head_def lit_def)

lemma budget_head_facts:
  "budget_clause_head \<noteq> []" "hd budget_clause_head = 65" "last budget_clause_head = 100"
  "n \<in> set budget_clause_head \<longleftrightarrow>
     n \<in> {65, 115, 117, 109, 101, 32, 97, 100, 105, 108, 121, 98, 103, 116, 111, 102, 114, 110}"
  by (auto simp add: budget_clause_head_def lit_def)

lemma avoid_month_tpl_0:
  "\<not> sublist month_clause_head ys \<Longrightarrow> \<not> sublist month_clause_head (tpl_0 @ ys)"
  unfolding tpl_0_def append_assoc
  apply (rule avoid_plain, simp add: month_head_facts, simp add: month_head_facts in_set_lit)
  apply (rule avoid_plain, simp add: month_head_facts, simp add: month_head_facts in_set_lit)
  apply (rule avoid_plain, simp add: month_head_facts, simp add: month_head_facts in_set_lit)
  apply assumption
  done

lemma avoid_month_tpl_1:
  "\<not> sublist month_clause_head ys \<Longrightarrow> \<not> sublist month_clause_head (tpl_1 @ ys)"
  unfolding tpl_1_def append_assoc
  apply (rule avoid_plain, simp add: month_head_facts, simp add: month_head_facts in_set_lit)
  apply (rule avoid_plain, simp add: month_head_facts, simp add: month_head_facts in_set_lit)
  apply (rule avoid_plain, simp add: month_head_facts, simp add: month_head_facts in_set_lit)
  apply (rule avoid_plain, simp add: month_head_facts, simp add: month_head_facts in_set_lit)
  apply (rule avoid_plain, simp add: month_head_facts, simp add: month_head_facts in_set_lit)
  apply (rule avoid_plain, simp add: month_head_facts, simp add: month_head_facts in_set_lit)
  apply assumption
  done

lemma avoid_month_tpl_2:
  "\<not> sublist month_clause_head ys \<Longrightarrow> \<not> sublist month_clause_head (tpl_2 @ ys)"
  unfolding tpl_2_def append_assoc
  apply (rule avoid_plain, simp add: month_head_facts, simp add: month_head_facts in_set_lit)
  apply (rule avoid_plain, simp add: month_head_facts, simp add: month_head_facts in_set_lit)
  apply (rule avoid_plain, simp add: month_head_facts, simp add: month_head_facts in_set_lit)
  apply (rule avoid_plain, simp add: month_head_facts, simp add: month_head_facts in_set_lit)
  apply (rule avoid_plain, simp add: month_head_facts, simp add: month_head_facts in_set_lit)
  apply (rule avoid_plain, simp add: month_head_facts, simp add: month_head_facts in_set_lit)
  apply assumption
  done

lemma avoid_month_tpl_3:
  "\<not> sublist month_clause_head ys \<Longrightarrow> \<not> sublist month_clause_head (tpl_3 @ ys)"
  unfolding tpl_3_def append_assoc
  apply (rule avoid_plain, simp add: month_head_facts, simp add: month_head_facts in_set_lit)
  apply (rule avoid_plain, simp add: month_head_facts, simp add: month_head_facts in_set_lit)
  apply (rule avoid_plain, simp add: month_head_facts, simp add: month_head_facts in_set_lit)
  apply (rule avoid_plain, simp add: month_head_facts, simp add: month_head_facts in_set_lit)
  apply assumption
  done

lemma avoid_month_tpl_4:
  "\<not> sublist month_clause_head ys \<Longrightarrow> \<not> sublist month_clause_head (tpl_4 @ ys)"
  unfolding tpl_4_def append_assoc
  apply (rule avoid_plain, simp add: month_head_facts, simp add: month_head_facts in_set_lit)
  apply (rule avoid_plain, simp add: month_head_facts, simp add: month_head_facts in_set_lit)
  apply (rule avoid_plain, simp add: month_head_facts, simp add: month_head_facts in_set_lit)
  apply assumption
  done

lemma avoid_month_tpl_5:
  "\<not> sublist month_clause_head ys \<Longrightarrow> \<not> sublist month_clause_head (tpl_5 @ ys)"
  unfolding tpl_5_def append_assoc
  apply (rule avoid_plain, simp add: month_head_facts, simp add: month_head_facts in_set_lit)
  apply (rule avoid_plain, simp add: month_head_facts, simp add: month_head_facts in_set_lit)
  apply (rule avoid_plain, simp add: month_head_facts, simp add: month_head_facts in_set_lit)
  apply (rule avoid_plain, simp add: month_head_facts, simp add: month_head_facts in_set_lit)
  apply (rule avoid_plain, simp add: month_head_facts, simp add: month_head_facts in_set_lit)
  apply assumption
  done

lemma avoid_month_tpl_6:
  "\<not> sublist month_clause_head ys \<Longrightarrow> \<not> sublist month_clause_head (tpl_6 @ ys)"
  unfolding tpl_6_def append_assoc
  apply (rule avoid_plain, simp add: month_head_facts, simp add: month_head_facts in_set_lit)
  apply (subst lit_split [of "''9. Itinerary for ''" "''9. I''" "''tinerary for ''"], simp)
  apply (rule avoid_marked [where x = 104 and z = 121])
       apply (simp_all add: month_head_facts in_set_lit)
  done

lemma avoid_month_tpl_7:
  "\<not> sublist month_clause_head ys \<Longrightarrow> \<not> sublist month_clause_head (tpl_7 @ ys)"
  unfolding tpl_7_def append_assoc
  apply (rule avoid_plain, simp add: month_head_facts, simp add: month_head_facts in_set_lit)
  apply (rule avoid_plain, simp add: month_head_facts, simp add: month_head_facts in_set_lit)
  apply (rule avoid_plain, simp add: month_head_facts, simp add: month_head_facts in_set_lit)
  apply (subst lit_split [of "''10. Practical tips: safety, payments, SIM/internet, etiquette, local transport ''" "''10. Practical tips: safety, payments, SI''" "''M/internet, etiquette, local transport ''"], simp)
  apply (rule avoid_marked [where x = 104 and z = 77])
       apply (simp_all add: month_head_facts in_set_lit)
  apply (rule avoid_plain, simp add: month_head_facts, simp add: month_head_facts in_set_lit)
  apply (rule avoid_plain, simp add: month_head_facts, simp add: month_head_facts in_set_lit)
  apply (rule avoid_plain, simp add: month_head_facts, simp add: month_head_facts in_set_lit)
  apply (subst lit_split [of "''- If specific facts are uncertain, label them as estimates and provide typical ''" "''- I''" "''f specific facts are uncertain, label them as estimates and provide typical ''"], simp)
  apply (rule avoid_marked [where x = 103 and z = 98])
       apply (simp_all add: month_head_facts in_set_lit)
  apply (rule avoid_plain, simp add: month_head_facts, simp add: month_head_facts in_set_lit)
  apply (rule avoid_plain, simp add: month_head_facts, simp add: month_head_facts in_set_lit)
  apply (rule avoid_plain, simp add: month_head_facts, simp add: month_head_facts in_set_lit)
  apply (rule avoid_plain, simp add: month_head_facts, simp add: month_head_facts in_set_lit)
  apply (rule avoid_plain, simp add: month_head_facts, simp add: month_head_facts in_set_lit)
  apply assumption
  done

lemma avoid_month_tpl_8:
  "\<not> sublist month_clause_head ys \<Longrightarrow> \<not> sublist month_clause_head (tpl_8 @ ys)"
  unfolding tpl_8_def append_assoc
  apply (rule avoid_plain, simp add: month_head_facts, simp add: month_head_facts in_set_lit)
  apply assumption
  done

lemma avoid_month_free_tpl_1:
  "\<not> sublist month_clause_head d \<Longrightarrow> \<not> sublist month_clause_head (tpl_1 @ ys)
    \<Longrightarrow> \<not> sublist month_clause_head (d @ tpl_1 @ ys)"
  unfolding tpl_1_def append_assoc
  apply (rule avoid_free_marked [where z = 46])
      apply (simp_all add: month_head_facts in_set_lit)
  done

lemma avoid_month_free_tpl_2:
  "\<not> sublist month_clause_head d \<Longrightarrow> \<not> sublist month_clause_head (tpl_2 @ ys)
    \<Longrightarrow> \<not> sublist month_clause_head (d @ tpl_2 @ ys)"
  unfolding tpl_2_def append_assoc
  apply (rule avoid_free_marked [where z = 34])
      apply (simp_all add: month_head_facts in_set_lit)
  done

lemma avoid_month_free_tpl_3:
  "\<not> sublist month_clause_head d \<Longrightarrow> \<not> sublist month_clause_head (tpl_3 @ ys)
    \<Longrightarrow> \<not> sublist month_clause_head (d @ tpl_3 @ ys)"
  unfolding tpl_3_def append_assoc
  apply (rule avoid_free_marked [where z = 58])
      apply (simp_all add: month_head_facts in_set_lit)
  done

lemma avoid_month_free_tpl_5:
  "\<not> sublist month_clause_head d \<Longrightarrow> \<not> sublist month_clause_head (tpl_5 @ ys)
    \<Longrightarrow> \<not> sublist month_clause_head (d @ tpl_5 @ ys)"
  unfolding tpl_5_def append_assoc
  apply (subst lit_split [of "''; include neighborhood context; if widely-known, add an official site or aggregator ''" "'';''" "'' include neighborhood context; if widely-known, add an official site or aggregator ''"], simp)
  apply (subst (asm) lit_split [of "''; include neighborhood context; if widely-known, add an official site or aggregator ''" "'';''" "'' include neighborhood context; if widely-known, add an official site or aggregator ''"], simp)
  apply (simp only: append_assoc)
  apply (rule avoid_free_marked [where z = 59])
      apply (simp_all add: month_head_facts in_set_lit)
  done


lemma avoid_budget_tpl_0:
  "\<not> sublist budget_clause_head ys \<Longrightarrow> \<not> sublist budget_clause_head (tpl_0 @ ys)"
  unfolding tpl_0_def append_assoc
  apply (rule avoid_plain, simp add: budget_head_facts, simp add: budget_head_facts in_set_lit)
  apply (rule avoid_plain, simp add: budget_head_facts, simp add: budget_head_facts in_set_lit)
  apply (rule avoid_plain, simp add: budget_head_facts, simp add: budget_head_facts in_set_lit)
  apply assumption
  done

lemma avoid_budget_tpl_1:
  "\<not> sublist budget_clause_head ys \<Longrightarrow> \<not> sublist budget_clause_head (tpl_1 @ ys)"
  unfolding tpl_1_def append_assoc
  apply (rule avoid_plain, simp add: budget_head_facts, simp add: budget_head_facts in_set_lit)
  apply (rule avoid_plain, simp add: budget_head_facts, simp add: budget_head_facts in_set_lit)
  apply (rule avoid_plain, simp add: budget_head_facts, simp add: budget_head_facts in_set_lit)
  apply (rule avoid_plain, simp add: budget_head_facts, simp add: budget_head_facts in_set_lit)
  apply (rule avoid_plain, simp add: budget_head_facts, simp add: budget_head_facts in_set_lit)
  apply (rule avoid_plain, simp add: budget_head_facts, simp add: budget_head_facts in_set_lit)
  apply assumption
  done

lemma avoid_budget_tpl_2:
  "\<not> sublist budget_clause_head ys \<Longrightarrow> \<not> sublist budget_clause_head (tpl_2 @ ys)"
  unfolding tpl_2_def append_assoc
  apply (rule avoid_plain, simp add: budget_head_facts, simp add: budget_head_facts in_set_lit)
  apply (rule avoid_plain, simp add: budget_head_facts, simp add: budget_head_facts in_set_lit)
  apply (rule avoid_plain, simp add: budget_head_facts, simp add: budget_head_facts in_set_lit)
  apply (rule avoid_plain, simp add: budget_head_facts, simp add: budget_head_facts in_set_lit)
  apply (rule avoid_plain, simp add: budget_head_facts, simp add: budget_head_facts in_set_lit)
  apply (subst lit_split [of "''5. Approximate costs in ''" "''5. A''" "''pproximate costs in ''"], simp)
  apply (rule avoid_marked [where x = 117 and z = 112])
       apply (simp_all add: budget_head_facts in_set_lit)
  done

lemma avoid_budget_tpl_3:
  "\<not> sublist budget_clause_head ys \<Longrightarrow> \<not> sublist budget_clause_head (tpl_3 @ ys)"
  unfolding tpl_3_def append_assoc
  apply (rule avoid_plain, simp add: budget_head_facts, simp add: budget_head_facts in_set_lit)
  apply (rule avoid_plain, simp add: budget_head_facts, simp add: budget_head_facts in_set_lit)
  apply (rule avoid_plain, simp add: budget_head_facts, simp add: budget_head_facts in_set_lit)
  apply (rule avoid_plain, simp add: budget_head_facts, simp add: budget_head_facts in_set_lit)
  apply assumption
  done

lemma avoid_budget_tpl_4:
  "\<not> sublist budget_clause_head ys \<Longrightarrow> \<not> sublist budget_clause_head (tpl_4 @ ys)"
  unfolding tpl_4_def append_assoc
  apply (rule avoid_plain, simp add: budget_head_facts, simp add: budget_head_facts in_set_lit)
  apply (rule avoid_plain, simp add: budget_head_facts, simp add: budget_head_facts in_set_lit)
  apply (rule avoid_plain, simp add: budget_head_facts, simp add: budget_head_facts in_set_lit)
  apply assumption
  done

lemma avoid_budget_tpl_5:
  "\<not> sublist budget_clause_head ys \<Longrightarrow> \<not> sublist budget_clause_head (tpl_5 @ ys)"
  unfolding tpl_5_def append_assoc
  apply (rule avoid_plain, simp add: budget_head_facts, simp add: budget_head_facts in_set_lit)
  apply (rule avoid_plain, simp add: budget_head_facts, simp add: budget_head_facts in_set_lit)
  apply (rule avoid_plain, simp add: budget_head_facts, simp add: budget_head_facts in_set_lit)
  apply (rule avoid_plain, simp add: budget_head_facts, simp add: budget_head_facts in_set_lit)
  apply (rule avoid_plain, simp add: budget_head_facts, simp add: budget_head_facts in_set_lit)
  apply assumption
  done

lemma avoid_budget_tpl_6:
  "\<not> sublist budget_clause_head ys \<Longrightarrow> \<not> sublist budget_clause_head (tpl_6 @ ys)"
  unfolding tpl_6_def append_assoc
  apply (rule avoid_plain, simp add: budget_head_facts, simp add: budget_head_facts in_set_lit)
  apply (rule avoid_plain, simp add: budget_head_facts, simp add: budget_head_facts in_set_lit)
  apply assumption
  done

lemma avoid_budget_tpl_7:
  "\<not> sublist budget_clause_head ys \<Longrightarrow> \<not> sublist budget_clause_head (tpl_7 @ ys)"
  unfolding tpl_7_def append_assoc
  apply (rule avoid_plain, simp add: budget_head_facts, simp add: budget_head_facts in_set_lit)
  apply (rule avoid_plain, simp add: budget_head_facts, simp add: budget_head_facts in_set_lit)
  apply (rule avoid_plain, simp add: budget_head_facts, simp add: budget_head_facts in_set_lit)
  apply (rule avoid_plain, simp add: budget_head_facts, simp add: budget_head_facts in_set_lit)
  apply (rule avoid_plain, simp add: budget_head_facts, simp add: budget_head_facts in_set_lit)
  apply (rule avoid_plain, simp add: budget_head_facts, simp add: budget_head_facts in_set_lit)
  apply (rule avoid_plain, simp add: budget_head_facts, simp add: budget_head_facts in_set_lit)
  apply (rule avoid_plain, simp add: budget_head_facts, simp add: budget_head_facts in_set_lit)
  apply (rule avoid_plain, simp add: budget_head_facts, simp add: budget_head_facts in_set_lit)
  apply (rule avoid_plain, simp add: budget_head_facts, simp add: budget_head_facts in_set_lit)
  apply (subst lit_split [of "''- Avoid promises; use cautious language when needed.\<newline>''" "''- A''" "''void promises; use cautious language when needed.\<newline>''"], simp)
  apply (rule avoid_marked [where x = 121 and z = 118])
       apply (simp_all add: budget_head_facts in_set_lit)
  apply (rule avoid_plain, simp add: budget_head_facts, simp add: budget_head_facts in_set_lit)
  apply (rule avoid_plain, simp add: budget_head_facts, simp add: budget_head_facts in_set_lit)
  apply assumption
  done

lemma avoid_budget_tpl_8:
  "\<not> sublist budget_clause_head ys \<Longrightarrow> \<not> sublist budget_clause_head (tpl_8 @ ys)"
  unfolding tpl_8_def append_assoc
  apply (rule avoid_plain, simp add: budget_head_facts, simp add: budget_head_facts in_set_lit)
  apply assumption
  done

lemma avoid_budget_free_tpl_1:
  "\<not> sublist budget_clause_head d \<Longrightarrow> \<not> sublist budget_clause_head (tpl_1 @ ys)
    \<Longrightarrow> \<not> sublist budget_clause_head (d @ tpl_1 @ ys)"
  unfolding tpl_1_def append_assoc
  apply (rule avoid_free_marked [where z = 46])
      apply (simp_all add: budget_head_facts in_set_lit)
  done

lemma avoid_budget_free_tpl_2:
  "\<not> sublist budget_clause_head d \<Longrightarrow> \<not> sublist budget_clause_head (tpl_2 @ ys)
    \<Longrightarrow> \<not> sublist budget_clause_head (d @ tpl_2 @ ys)"
  unfolding tpl_2_def append_assoc
  apply (rule avoid_free_marked [where z = 34])
      apply (simp_all add: budget_head_facts in_set_lit)
  done

lemma avoid_budget_free_tpl_3:
  "\<not> sublist budget_clause_head d \<Longrightarrow> \<not> sublist budget_clause_head (tpl_3 @ ys)
    \<Longrightarrow> \<not> sublist budget_clause_head (d @ tpl_3 @ ys)"
  unfolding tpl_3_def append_assoc
  apply (rule avoid_free_marked [where z = 58])
      apply (simp_all add: budget_head_facts in_set_lit)
  done

lemma avoid_budget_free_tpl_5:
  "\<not> sublist budget_clause_head d \<Longrightarrow> \<not> sublist budget_clause_head (tpl_5 @ ys)
    \<Longrightarrow> \<not> sublist budget_clause_head (d @ tpl_5 @ ys)"
  unfolding tpl_5_def append_assoc
  apply (subst lit_split [of "''; include neighborhood context; if widely-known, add an official site or aggregator ''" "'';''" "'' include neighborhood context; if widely-known, add an official site or aggregator ''"], simp)
  apply (subst (asm) lit_split [of "''; include neighborhood context; if widely-known, add an official site or aggregator ''" "'';''" "'' include neighborhood context; if widely-known, add an official site or aggregator ''"], simp)
  apply (simp only: append_assoc)
  apply (rule avoid_free_marked [where z = 59])
      apply (simp_all add: budget_head_facts in_set_lit)
  done



declare str_nat.simps [simp del]

lemma set_str_nat: "set (str_nat n) \<subseteq> {48..57}"
proof (induction n rule: str_nat.induct)
  case (1 n)
  show ?case
  proof (cases "n < 10")
    case True
    then show ?thesis by (simp add: str_nat.simps [of n])
  next
    case False
    with 1 have "set (str_nat (n div 10)) \<subseteq> {48..57}" by simp
    moreover have "48 + n mod 10 \<in> {48..57}" by simp
    ultimately show ?thesis using False by (simp add: str_nat.simps [of n])
  qed
qed

lemma set_str_int: "set (str_int i) \<subseteq> insert 45 {48..57}"
  using set_str_nat by (auto simp add: str_int_def)

lemma avoid_str_int:
  assumes "P \<noteq> []" and "hd P \<noteq> 45" and "hd P < 48 \<or> 57 < hd P" and "\<not> sublist P ys"
  shows "\<not> sublist P (str_int i @ ys)"
proof (rule avoid_plain)
  show "hd P \<notin> set (str_int i)"
    using set_str_int [of i] assms(2,3) by auto
qed fact+

lemma avoid_month_budget_clause:
  "\<not> sublist month_clause_head c \<Longrightarrow> \<not> sublist month_clause_head ys
    \<Longrightarrow> \<not> sublist month_clause_head (budget_clause b c @ ys)"
  unfolding budget_clause_def append_assoc
  apply (subst lit_split [of "'' and adjust recommendations accordingly.''" "'' and adjust''"
      "'' recommendations accordingly.''"], simp)
  apply (simp only: append_assoc)
  apply (rule avoid_plain, simp add: month_head_facts, simp add: month_head_facts in_set_lit)
  apply (rule avoid_str_int, simp_all add: month_head_facts)
  apply (rule avoid_plain, simp add: month_head_facts, simp add: month_head_facts in_set_lit)
  apply (rule avoid_free_marked [where z = 106])
      apply (simp_all add: month_head_facts in_set_lit)
  apply (rule avoid_plain, simp add: month_head_facts, simp add: month_head_facts in_set_lit)
  apply (rule avoid_plain, simp add: month_head_facts, simp add: month_head_facts in_set_lit)
  apply assumption
  done

lemma avoid_budget_month_clause:
  "\<not> sublist budget_clause_head m \<Longrightarrow> \<not> sublist budget_clause_head ys
    \<Longrightarrow> \<not> sublist budget_clause_head (month_clause m @ ys)"
  unfolding month_clause_def append_assoc
  apply (rule avoid_plain, simp add: budget_head_facts, simp add: budget_head_facts in_set_lit)
  apply (rule avoid_free_marked [where z = 120])
      apply (simp_all add: budget_head_facts in_set_lit)
  apply (rule avoid_plain, simp add: budget_head_facts, simp add: budget_head_facts in_set_lit)
  apply assumption
  done

lemma avoid_month_end: "\<not> sublist month_clause_head tpl_8"
  using avoid_month_tpl_8 [of "[]"] by (simp add: month_head_facts)

lemma avoid_budget_end: "\<not> sublist budget_clause_head tpl_8"
  using avoid_budget_tpl_8 [of "[]"] by (simp add: budget_head_facts)

lemmas avoid_month_rules =
  avoid_month_tpl_0 avoid_month_free_tpl_1 avoid_month_tpl_1 avoid_month_free_tpl_2
  avoid_month_tpl_2 avoid_month_free_tpl_3 avoid_month_tpl_3 avoid_month_tpl_4
  avoid_month_free_tpl_5 avoid_month_tpl_5 avoid_month_tpl_6 avoid_month_tpl_7
  avoid_month_budget_clause avoid_month_end

lemmas avoid_budget_rules =
  avoid_budget_tpl_0 avoid_budget_free_tpl_1 avoid_budget_tpl_1 avoid_budget_free_tpl_2
  avoid_budget_tpl_2 avoid_budget_free_tpl_3 avoid_budget_tpl_3 avoid_budget_tpl_4
  avoid_budget_free_tpl_5 avoid_budget_tpl_5 avoid_budget_tpl_6 avoid_budget_tpl_7
  avoid_budget_month_clause avoid_budget_end

text \<open>With no month, a prompt holds the start of the month clause only if the destination
  or the currency brings it.\<close>

lemma prompt_without_month_clause:
  assumes m: "month = None \<or> month = Some []"
    and d: "\<not> sublist month_clause_head destination"
    and c: "\<not> sublist month_clause_head currency"
  shows "\<not> sublist month_clause_head (build_prompt destination days month currency daily_budget)"
proof -
  have i: "\<not> sublist month_clause_head (str_int n @ ys)" if "\<not> sublist month_clause_head ys" for n ys
    using that by (intro avoid_str_int) (simp_all add: month_head_facts)
  have "\<not> sublist month_clause_head
      (tpl_0 @ destination @ tpl_1 @ destination @ tpl_2 @ currency @ tpl_3 @
       str_int days @ tpl_4 @ currency @ tpl_5 @ tpl_6 @ str_int days @ tpl_7 @ tpl_8)"
    by (intro avoid_month_rules i d c)
  moreover have "\<not> sublist month_clause_head
      (tpl_0 @ destination @ tpl_1 @ destination @ tpl_2 @ currency @ tpl_3 @
       str_int days @ tpl_4 @ currency @ tpl_5 @ tpl_6 @ str_int days @ tpl_7 @
       budget_clause b currency @ tpl_8)" for b
    by (intro avoid_month_rules i d c)
  ultimately show ?thesis
    using m by (cases daily_budget) (auto simp add: build_prompt_def)
qed

text \<open>With no budget, a prompt holds the start of the budget clause only if the
  destination, the currency or the month brings it.\<close>

lemma prompt_without_budget_clause:
  assumes d: "\<not> sublist budget_clause_head destination"
    and c: "\<not> sublist budget_clause_head currency"
    and m: "\<And>x. month = Some x \<Longrightarrow> \<not> sublist budget_clause_head x"
  shows "\<not> sublist budget_clause_head (build_prompt destination days month currency None)"
proof -
  have i: "\<not> sublist budget_clause_head (str_int n @ ys)" if "\<not> sublist budget_clause_head ys" for n ys
    using that by (intro avoid_str_int) (simp_all add: budget_head_facts)
  have 1: "\<not> sublist budget_clause_head
      (tpl_0 @ destination @ tpl_1 @ destination @ tpl_2 @ currency @ tpl_3 @
       str_int days @ tpl_4 @ currency @ tpl_5 @ tpl_6 @ str_int days @ tpl_7 @ tpl_8)"
    by (intro avoid_budget_rules i d c)
  have 2: "\<not> sublist budget_clause_head
      (tpl_0 @ destination @ tpl_1 @ destination @ tpl_2 @ currency @ tpl_3 @
       str_int days @ tpl_4 @ currency @ tpl_5 @ month_clause x @ tpl_6 @ str_int days @
       tpl_7 @ tpl_8)" if "month = Some x" for x
    by (intro avoid_budget_rules i d c m [OF that])
  show ?thesis
  proof (cases month)
    case None
    with 1 show ?thesis by (simp add: build_prompt_def)
  next
    case (Some x)
    with 1 2 [OF Some] show ?thesis by (cases "x = []") (simp_all add: build_prompt_def)
  qed
qed


section \<open>Properties of the prompt\<close>

lemma build_prompt_unfold:
  "build_prompt destination days month currency daily_budget =
     tpl_0 @ destination @ tpl_1 @ destination @ tpl_2 @ currency @ tpl_3 @
     str_int days @ tpl_4 @ currency @ tpl_5 @
     (case month of None \<Rightarrow> [] | Some m \<Rightarrow> if m \<noteq> [] then month_clause m else []) @
     tpl_6 @ str_int days @ tpl_7 @
     (case daily_budget of None \<Rightarrow> [] | Some b \<Rightarrow> budget_clause b currency) @ tpl_8"
  by (simp add: build_prompt_def)

lemma sublist_in_middle: "ys = ps @ xs @ ss \<Longrightarrow> sublist xs ys"
  by (auto simp add: sublist_def)

lemma prompt_has_title:
  "sublist (lit ''Rupam's Travel Guide: '' @ destination)
     (build_prompt destination days month currency daily_budget)"
proof -
  have 1: \<open>tpl_1 = (lit ''.\<newline>'' @ lit ''\<newline>'' @
      lit ''Output structure (use Markdown headings and bullet lists; keep it concise but '' @
      lit ''complete):\<newline>'' @ lit ''\<newline>'' @ lit ''1. Title: "'') @
      lit ''Rupam's Travel Guide: ''\<close> (is "_ = ?a @ _")
    unfolding tpl_1_def by (simp add: lit_def)
  have "build_prompt destination days month currency daily_budget =
      (tpl_0 @ destination @ ?a) @ (lit ''Rupam's Travel Guide: '' @ destination) @
      (tpl_2 @ currency @ tpl_3 @ str_int days @ tpl_4 @ currency @ tpl_5 @
      (case month of None \<Rightarrow> [] | Some m \<Rightarrow> if m \<noteq> [] then month_clause m else []) @
      tpl_6 @ str_int days @ tpl_7 @
      (case daily_budget of None \<Rightarrow> [] | Some b \<Rightarrow> budget_clause b currency) @ tpl_8)"
    by (simp only: build_prompt_unfold 1 append_assoc)
  then show ?thesis by (rule sublist_in_middle)
qed

lemma prompt_has_itinerary:
  "sublist (lit ''Itinerary for '' @ str_int days @ lit '' days'')
     (build_prompt destination days month currency daily_budget)"
proof -
  have 6: "tpl_6 = (lit ''\<newline>'' @ lit ''9. '') @ lit ''Itinerary for ''" (is "_ = ?a @ _")
    unfolding tpl_6_def by (simp add: lit_def)
  obtain r where 7: "tpl_7 = lit '' days'' @ r"
    unfolding tpl_7_def by (simp add: lit_def)
  have "build_prompt destination days month currency daily_budget =
      (tpl_0 @ destination @ tpl_1 @ destination @ tpl_2 @ currency @ tpl_3 @
       str_int days @ tpl_4 @ currency @ tpl_5 @
       (case month of None \<Rightarrow> [] | Some m \<Rightarrow> if m \<noteq> [] then month_clause m else []) @ ?a) @
      (lit ''Itinerary for '' @ str_int days @ lit '' days'') @
      (r @ (case daily_budget of None \<Rightarrow> [] | Some b \<Rightarrow> budget_clause b currency) @ tpl_8)"
    by (simp only: build_prompt_unfold 6 7 append_assoc)
  then show ?thesis by (rule sublist_in_middle)
qed

lemma prompt_has_month_clause:
  assumes "m \<noteq> []"
  shows "sublist (month_clause m) (build_prompt destination days (Some m) currency daily_budget)"
proof -
  have "build_prompt destination days (Some m) currency daily_budget =
      (tpl_0 @ destination @ tpl_1 @ destination @ tpl_2 @ currency @ tpl_3 @
       str_int days @ tpl_4 @ currency @ tpl_5) @ month_clause m @
      (tpl_6 @ str_int days @ tpl_7 @
       (case daily_budget of None \<Rightarrow> [] | Some b \<Rightarrow> budget_clause b currency) @ tpl_8)"
    using assms by (simp add: build_prompt_unfold)
  then show ?thesis by (rule sublist_in_middle)
qed

lemma prompt_has_budget_clause:
  "sublist (budget_clause b currency) (build_prompt destination days month currency (Some b))"
proof -
  have "build_prompt destination days month currency (Some b) =
      (tpl_0 @ destination @ tpl_1 @ destination @ tpl_2 @ currency @ tpl_3 @
       str_int days @ tpl_4 @ currency @ tpl_5 @
       (case month of None \<Rightarrow> [] | Some m \<Rightarrow> if m \<noteq> [] then month_clause m else []) @
       tpl_6 @ str_int days @ tpl_7) @ budget_clause b currency @ tpl_8"
    by (simp add: build_prompt_unfold)
  then show ?thesis by (rule sublist_in_middle)
qed

lemma str_int_samples: "str_int 0 = lit ''0''" "str_int 3 = lit ''3''" "str_int 1500 = lit ''1500''"
  "str_int (- 7) = lit ''-7''"
  by (simp_all add: str_int_def str_nat.simps lit_def)


lemma sublist_too_long: "length ys < length xs \<Longrightarrow> \<not> sublist xs ys"
  using sublist_length_le by fastforce

lemma month_head_lit: "lit ''If the user-specified month is provided, highlight guidance for'' = month_clause_head"
  by (simp add: month_clause_head_def)

lemma budget_head_lit: "lit ''Assume a daily budget of around'' = budget_clause_head"
  by (simp add: budget_clause_head_def)

text \<open>
  Claim C3, as amended. When the month is unset (\<open>None\<close>, or the empty string, which the
  code treats alike) and neither the destination nor the currency holds the opening text
  of the month clause, the prompt does not hold that text, so it holds no month clause at
  all. When the month is set to a non-empty text, the prompt holds the clause with that
  month verbatim, and it is the prompt of the same request without a month with exactly
  that clause inserted at one place.
\<close>

theorem build_prompt_month_clause:
  "((month = None \<or> month = Some []) \<and>
    \<not> sublist (lit ''If the user-specified month is provided, highlight guidance for'') destination \<and>
    \<not> sublist (lit ''If the user-specified month is provided, highlight guidance for'') currency
    \<longrightarrow> \<not> sublist (lit ''If the user-specified month is provided, highlight guidance for'')
          (build_prompt destination days month currency daily_budget)) \<and>
   sublist m (build_prompt destination days (Some m) currency daily_budget) \<and>
   (m \<noteq> [] \<longrightarrow>
      sublist (lit ''If the user-specified month is provided, highlight guidance for '' @ m @
       lit '' explicitly.'')
        (build_prompt destination days (Some m) currency daily_budget) \<and>
      (\<exists>pre post.
         build_prompt destination days None currency daily_budget = pre @ post \<and>
         build_prompt destination days (Some m) currency daily_budget =
           pre @ (lit ''If the user-specified month is provided, highlight guidance for '' @ m @
       lit '' explicitly.'') @ post))"
proof (intro conjI impI)
  assume "(month = None \<or> month = Some []) \<and>
    \<not> sublist (lit ''If the user-specified month is provided, highlight guidance for'') destination \<and>
    \<not> sublist (lit ''If the user-specified month is provided, highlight guidance for'') currency"
  then show "\<not> sublist (lit ''If the user-specified month is provided, highlight guidance for'')
      (build_prompt destination days month currency daily_budget)"
    unfolding month_head_lit by (intro prompt_without_month_clause) simp_all
next
  show "sublist m (build_prompt destination days (Some m) currency daily_budget)"
  proof (cases "m = []")
    case True
    then show ?thesis by simp
  next
    case False
    have "build_prompt destination days (Some m) currency daily_budget =
      (tpl_0 @ destination @ tpl_1 @ destination @ tpl_2 @ currency @ tpl_3 @
       str_int days @ tpl_4 @ currency @ tpl_5 @
       lit ''If the user-specified month is provided, highlight guidance for '') @ m @
      (lit '' explicitly.'' @ tpl_6 @ str_int days @ tpl_7 @
       (case daily_budget of None \<Rightarrow> [] | Some b \<Rightarrow> budget_clause b currency) @ tpl_8)"
      using False by (simp add: build_prompt_unfold month_clause_def)
    then show ?thesis by (rule sublist_in_middle)
  qed
next
  assume "m \<noteq> []"
  then show "sublist (lit ''If the user-specified month is provided, highlight guidance for '' @ m @
       lit '' explicitly.'')
      (build_prompt destination days (Some m) currency daily_budget)"
    using prompt_has_month_clause [of m] by (simp add: month_clause_def)
next
  assume m: "m \<noteq> []"
  let ?pre = "tpl_0 @ destination @ tpl_1 @ destination @ tpl_2 @ currency @ tpl_3 @
       str_int days @ tpl_4 @ currency @ tpl_5"
  let ?post = "tpl_6 @ str_int days @ tpl_7 @
       (case daily_budget of None \<Rightarrow> [] | Some b \<Rightarrow> budget_clause b currency) @ tpl_8"
  have "build_prompt destination days None currency daily_budget = ?pre @ ?post"
    by (simp add: build_prompt_unfold)
  moreover have "build_prompt destination days (Some m) currency daily_budget =
      ?pre @ (lit ''If the user-specified month is provided, highlight guidance for '' @ m @
       lit '' explicitly.'') @ ?post"
    using m by (simp add: build_prompt_unfold month_clause_def)
  ultimately show "\<exists>pre post.
         build_prompt destination days None currency daily_budget = pre @ post \<and>
         build_prompt destination days (Some m) currency daily_budget =
           pre @ (lit ''If the user-specified month is provided, highlight guidance for '' @ m @
       lit '' explicitly.'') @ post"
    by blast
qed

theorem build_prompt_month_clause_witness:
  "\<not> sublist (lit ''If the user-specified month is provided, highlight guidance for'')
      (build_prompt (lit ''Kyoto'') 3 None (lit ''INR'') (Some 1500)) \<and>
   sublist (lit ''May'') (build_prompt (lit ''Kyoto'') 3 (Some (lit ''May'')) (lit ''INR'') (Some 1500)) \<and>
   sublist (lit ''If the user-specified month is provided, highlight guidance for '' @ lit ''May'' @
       lit '' explicitly.'')
     (build_prompt (lit ''Kyoto'') 3 (Some (lit ''May'')) (lit ''INR'') (Some 1500)) \<and>
   (\<exists>pre post.
      build_prompt (lit ''Kyoto'') 3 None (lit ''INR'') (Some 1500) = pre @ post \<and>
      build_prompt (lit ''Kyoto'') 3 (Some (lit ''May'')) (lit ''INR'') (Some 1500) =
        pre @ (lit ''If the user-specified month is provided, highlight guidance for '' @
          lit ''May'' @ lit '' explicitly.'') @ post)"
proof -
  have a: "(None = None \<or> None = Some ([] :: pystr)) \<and>
    \<not> sublist (lit ''If the user-specified month is provided, highlight guidance for'') (lit ''Kyoto'') \<and>
    \<not> sublist (lit ''If the user-specified month is provided, highlight guidance for'') (lit ''INR'')"
    by (simp add: sublist_too_long lit_def)
  have b: "lit ''May'' \<noteq> []" by (simp add: lit_def)
  from build_prompt_month_clause [of None "lit ''Kyoto''" "lit ''INR''" 3 "Some 1500" "lit ''May''"] a b
  show ?thesis by iprover
qed

text \<open>
  The claim as worded fails when the request itself brings the clause: with no month, a
  destination that is the text of the clause puts the whole clause into the prompt.
\<close>

theorem build_prompt_month_clause_counterexample:
  "sublist (lit ''If the user-specified month is provided, highlight guidance for May explicitly.'')
     (build_prompt
        (lit ''If the user-specified month is provided, highlight guidance for May explicitly.'')
        4 None (lit ''INR'') None)"
  by (rule sublist_in_middle) (rule build_prompt_unfold)


text \<open>
  Claim C4, as amended. When the budget is unset and neither the destination, the currency
  nor the month text holds the opening text of the budget clause, the prompt does not
  hold that text, so it holds no budget clause at all. When the budget is set to any
  integer (0 and negative numbers too), the prompt holds the clause with the budget in
  decimal and the currency, and it is the prompt of the same request without a budget
  with exactly that clause inserted at one place.
\<close>

theorem build_prompt_budget_clause:
  "(\<not> sublist (lit ''Assume a daily budget of around'') destination \<and>
    \<not> sublist (lit ''Assume a daily budget of around'') currency \<and>
    (\<forall>x. month = Some x \<longrightarrow> \<not> sublist (lit ''Assume a daily budget of around'') x)
    \<longrightarrow> \<not> sublist (lit ''Assume a daily budget of around'')
          (build_prompt destination days month currency None)) \<and>
   sublist (lit ''Assume a daily budget of around '' @ str_int b @ lit '' '' @ currency @
       lit '' and adjust recommendations accordingly.'')
     (build_prompt destination days month currency (Some b)) \<and>
   sublist (lit ''Assume a daily budget of around 0 '' @ currency @
       lit '' and adjust recommendations accordingly.'')
     (build_prompt destination days month currency (Some 0)) \<and>
   str_int 1500 = lit ''1500'' \<and> str_int (- 7) = lit ''-7'' \<and>
   (\<exists>pre post.
      build_prompt destination days month currency None = pre @ post \<and>
      build_prompt destination days month currency (Some b) =
        pre @ (lit ''Assume a daily budget of around '' @ str_int b @ lit '' '' @ currency @
       lit '' and adjust recommendations accordingly.'') @ post)"
proof (intro conjI impI)
  assume a: "\<not> sublist (lit ''Assume a daily budget of around'') destination \<and>
    \<not> sublist (lit ''Assume a daily budget of around'') currency \<and>
    (\<forall>x. month = Some x \<longrightarrow> \<not> sublist (lit ''Assume a daily budget of around'') x)"
  show "\<not> sublist (lit ''Assume a daily budget of around'')
      (build_prompt destination days month currency None)"
    unfolding budget_head_lit
    using a [unfolded budget_head_lit] by (intro prompt_without_budget_clause) simp_all
next
  show "sublist (lit ''Assume a daily budget of around '' @ str_int b @ lit '' '' @ currency @
       lit '' and adjust recommendations accordingly.'')
     (build_prompt destination days month currency (Some b))"
    using prompt_has_budget_clause [of b currency] by (simp add: budget_clause_def)
next
  have "lit ''Assume a daily budget of around 0 '' =
      lit ''Assume a daily budget of around '' @ str_int 0 @ lit '' ''"
    by (simp add: str_int_samples lit_def)
  then show "sublist (lit ''Assume a daily budget of around 0 '' @ currency @
       lit '' and adjust recommendations accordingly.'')
     (build_prompt destination days month currency (Some 0))"
    using prompt_has_budget_clause [of 0 currency] by (simp add: budget_clause_def)
next
  show "str_int 1500 = lit ''1500''" "str_int (- 7) = lit ''-7''"
    by (rule str_int_samples)+
next
  let ?pre = "tpl_0 @ destination @ tpl_1 @ destination @ tpl_2 @ currency @ tpl_3 @
       str_int days @ tpl_4 @ currency @ tpl_5 @
       (case month of None \<Rightarrow> [] | Some m \<Rightarrow> if m \<noteq> [] then month_clause m else []) @
       tpl_6 @ str_int days @ tpl_7"
  have "build_prompt destination days month currency None = ?pre @ tpl_8"
    by (simp add: build_prompt_unfold)
  moreover have "build_prompt destination days month currency (Some b) =
      ?pre @ (lit ''Assume a daily budget of around '' @ str_int b @ lit '' '' @ currency @
       lit '' and adjust recommendations accordingly.'') @ tpl_8"
    by (simp add: build_prompt_unfold budget_clause_def)
  ultimately show "\<exists>pre post.
      build_prompt destination days month currency None = pre @ post \<and>
      build_prompt destination days month currency (Some b) =
        pre @ (lit ''Assume a daily budget of around '' @ str_int b @ lit '' '' @ currency @
       lit '' and adjust recommendations accordingly.'') @ post"
    by blast
qed

theorem build_prompt_budget_clause_witness:
  "\<not> sublist (lit ''Assume a daily budget of around'')
      (build_prompt (lit ''Kyoto'') 3 (Some (lit ''May'')) (lit ''INR'') None) \<and>
   sublist (lit ''Assume a daily budget of around '' @ str_int 1500 @ lit '' '' @ lit ''INR'' @
       lit '' and adjust recommendations accordingly.'')
     (build_prompt (lit ''Kyoto'') 3 (Some (lit ''May'')) (lit ''INR'') (Some 1500)) \<and>
   sublist (lit ''Assume a daily budget of around 0 '' @ lit ''INR'' @
       lit '' and adjust recommendations accordingly.'')
     (build_prompt (lit ''Kyoto'') 3 (Some (lit ''May'')) (lit ''INR'') (Some 0)) \<and>
   str_int 1500 = lit ''1500'' \<and> str_int (- 7) = lit ''-7'' \<and>
   (\<exists>pre post.
      build_prompt (lit ''Kyoto'') 3 (Some (lit ''May'')) (lit ''INR'') None = pre @ post \<and>
      build_prompt (lit ''Kyoto'') 3 (Some (lit ''May'')) (lit ''INR'') (Some 1500) =
        pre @ (lit ''Assume a daily budget of around '' @ str_int 1500 @ lit '' '' @ lit ''INR'' @
          lit '' and adjust recommendations accordingly.'') @ post)"
proof -
  have a: "\<not> sublist (lit ''Assume a daily budget of around'') (lit ''Kyoto'') \<and>
    \<not> sublist (lit ''Assume a daily budget of around'') (lit ''INR'') \<and>
    (\<forall>x. Some (lit ''May'') = Some x \<longrightarrow> \<not> sublist (lit ''Assume a daily budget of around'') x)"
    by (simp add: sublist_too_long lit_def)
  from build_prompt_budget_clause [of "lit ''Kyoto''" "lit ''INR''" "Some (lit ''May'')" 3 1500] a
  show ?thesis by iprover
qed

text \<open>
  The claim as worded fails when the request itself brings the clause: with no budget, a
  destination that is the text of a budget clause puts that clause into the prompt.
\<close>

theorem build_prompt_budget_clause_counterexample:
  "sublist (lit ''Assume a daily budget of around 5 INR and adjust recommendations accordingly.'')
     (build_prompt
        (lit ''Assume a daily budget of around 5 INR and adjust recommendations accordingly.'')
        4 None (lit ''INR'') None)"
  by (rule sublist_in_middle) (rule build_prompt_unfold)

text \<open>
  Claim C9. For destination Kyoto, 3 days, no month, currency INR and no budget, the prompt
  holds the title \<open>Rupam's Travel Guide: Kyoto\<close> and the itinerary instruction for 3
  days, and it does not hold the opening text of the budget sentence.
\<close>

theorem build_prompt_kyoto:
  "sublist (lit ''Rupam's Travel Guide: Kyoto'')
     (build_prompt (lit ''Kyoto'') 3 None (lit ''INR'') None) \<and>
   sublist (lit ''Itinerary for 3 days'')
     (build_prompt (lit ''Kyoto'') 3 None (lit ''INR'') None) \<and>
   \<not> sublist (lit ''Assume a daily budget of around'')
     (build_prompt (lit ''Kyoto'') 3 None (lit ''INR'') None)"
proof (intro conjI)
  have "lit ''Rupam's Travel Guide: Kyoto'' = lit ''Rupam's Travel Guide: '' @ lit ''Kyoto''"
    by (simp add: lit_def)
  then show "sublist (lit ''Rupam's Travel Guide: Kyoto'')
     (build_prompt (lit ''Kyoto'') 3 None (lit ''INR'') None)"
    using prompt_has_title [of "lit ''Kyoto''"] by simp
next
  have "lit ''Itinerary for 3 days'' = lit ''Itinerary for '' @ str_int 3 @ lit '' days''"
    by (simp add: str_int_samples lit_def)
  then show "sublist (lit ''Itinerary for 3 days'')
     (build_prompt (lit ''Kyoto'') 3 None (lit ''INR'') None)"
    using prompt_has_itinerary [of 3] by simp
next
  show "\<not> sublist (lit ''Assume a daily budget of around'')
     (build_prompt (lit ''Kyoto'') 3 None (lit ''INR'') None)"
    unfolding budget_head_lit
    by (intro prompt_without_budget_clause)
      (simp_all add: sublist_too_long lit_def budget_clause_head_def)
qed

end
